theory Spec2Isabelle
  imports Complex_Main "HOL-Library.Sublist"
begin

section \<open>The trajectory planner's ROS wrapper (trajectory_planner_ros.cpp)\<close>

text \<open>
  A shallow embedding of \<^verbatim>\<open>base_local_planner::TrajectoryPlannerROS\<close>.
  The C++ \<^verbatim>\<open>double\<close> is idealised as \<^typ>\<open>real\<close>: rounding, infinities and NaN are
  outside the model. Members lose their trailing underscore. Everything the class calls
  but does not define in this file (the costmap, the transform listener, the trajectory
  controller \<^verbatim>\<open>tc_\<close>, \<^verbatim>\<open>tf::getYaw\<close>, \<^verbatim>\<open>angles::shortest_angular_distance\<close>,
  the header's \<^verbatim>\<open>sign\<close>) is a field of the record \<open>env\<close>, so every theorem holds
  for whatever those collaborators compute.
\<close>

subsection \<open>Messages, poses and the collaborators\<close>

text \<open>\<^verbatim>\<open>geometry_msgs::Twist\<close>: linear and angular velocity.\<close>

record twist =
  lin_x :: real
  lin_y :: real
  lin_z :: real
  ang_x :: real
  ang_y :: real
  ang_z :: real

text \<open>
  A stamped pose, used for \<^verbatim>\<open>geometry_msgs::PoseStamped\<close> and for
  \<^verbatim>\<open>tf::Stamped<tf::Pose>\<close> alike (the two conversions between them copy every
  field). The quaternion type is the parameter \<open>'q\<close>; it is only read through
  \<open>getYaw\<close> and built by \<open>createQuaternionFromYaw\<close>.
\<close>

record 'q pose =
  frame_id :: string
  stamp :: nat
  pos_x :: real
  pos_y :: real
  pos_z :: real
  orientation :: 'q

text \<open>\<^verbatim>\<open>tf::StampedTransform\<close>: its time stamp and its action on a pose.\<close>

record 'q transform =
  tf_stamp :: nat
  tf_apply :: "'q pose \<Rightarrow> 'q pose"

text \<open>The three exceptions of the transform library that the class catches.\<close>

datatype tf_error = LookupException | ConnectivityException | ExtrapolationException

text \<open>\<^verbatim>\<open>Trajectory\<close>: the cost (negative when infeasible) and the sampled points.\<close>

record trajectory =
  cost :: real
  points :: "(real \<times> real \<times> real) list"

record 'q env =
  getRobotPose :: "'q pose option"
  getGlobalFrameID :: string
  getBaseFrameID :: string
  getSizeInCellsX :: nat
  getSizeInCellsY :: nat
  getResolution :: real
  time_now :: nat
  lookupTransform :: "string \<Rightarrow> string \<Rightarrow> nat \<Rightarrow> tf_error + 'q transform"
  transformPose :: "string \<Rightarrow> string \<Rightarrow> tf_error + 'q pose"
  checkTrajectory ::
    "real \<Rightarrow> real \<Rightarrow> real \<Rightarrow> real \<Rightarrow> real \<Rightarrow> real \<Rightarrow> real \<Rightarrow> real \<Rightarrow> real \<Rightarrow> bool"
  findBestPath :: "'q pose list \<Rightarrow> 'q pose \<Rightarrow> 'q pose \<Rightarrow> trajectory \<times> 'q pose"
  getYaw :: "'q \<Rightarrow> real"
  createQuaternionFromYaw :: "real \<Rightarrow> 'q"
  shortest_angular_distance :: "real \<Rightarrow> real \<Rightarrow> real"
  sign :: "real \<Rightarrow> real"

text \<open>
  \<open>getRobotPose\<close> is \<open>None\<close> when \<^verbatim>\<open>costmap_ros_->getRobotPose\<close> returns false.
  \<open>lookupTransform env target source t\<close> is the call
  \<^verbatim>\<open>tf_->lookupTransform(target, ros::Time(), source, t, source, transform)\<close>;
  \<open>transformPose env target base\<close> is the identity pose of frame \<open>base\<close> at time zero
  sent through \<^verbatim>\<open>tf_->transformPose(target, ...)\<close>. \<open>findBestPath env plan\<close> is
  \<^verbatim>\<open>tc_->findBestPath\<close> after \<^verbatim>\<open>tc_->updatePlan(plan)\<close>; it returns the path and
  the drive commands it writes. \<open>time_now\<close> is what \<^verbatim>\<open>ros::Time::now()\<close> reads.
\<close>

subsection \<open>The controller state\<close>

record 'q planner =
  initialized :: bool
  rotating_to_goal :: bool
  base_odom :: twist
  global_plan :: "'q pose list"
  prune_plan :: bool
  yaw_goal_tolerance :: real
  xy_goal_tolerance :: real
  acc_lim_x :: real
  acc_lim_y :: real
  acc_lim_theta :: real
  max_vel_th :: real
  min_vel_th :: real
  min_in_place_vel_th :: real
  rot_stopped_velocity :: real
  trans_stopped_velocity :: real
  global_frame :: string
  robot_base_frame :: string

text \<open>
  The parameter server: a parameter that is not set is \<open>None\<close>, and
  \<^verbatim>\<open>private_nh.param(name, var, default)\<close> then stores the default.
\<close>

record params =
  cfg_prune_plan :: "bool option"
  cfg_yaw_goal_tolerance :: "real option"
  cfg_xy_goal_tolerance :: "real option"
  cfg_acc_lim_x :: "real option"
  cfg_acc_lim_y :: "real option"
  cfg_acc_lim_th :: "real option"
  cfg_max_rotational_vel :: "real option"
  cfg_min_in_place_rotational_vel :: "real option"

definition param :: "'a option \<Rightarrow> 'a \<Rightarrow> 'a" where
  "param v dflt = (case v of None \<Rightarrow> dflt | Some a \<Rightarrow> a)"

text \<open>
  \<^verbatim>\<open>initialize\<close> (lines 63-171), restricted to the members this file reads again.
  A second call changes nothing.
\<close>

definition initialize :: "'q env \<Rightarrow> params \<Rightarrow> 'q planner \<Rightarrow> 'q planner" where
  "initialize env cfg st =
     (if \<not> initialized st then
        st\<lparr> rot_stopped_velocity := 1 / 100,
            trans_stopped_velocity := 1 / 100,
            rotating_to_goal := False,
            global_frame := getGlobalFrameID env,
            robot_base_frame := getBaseFrameID env,
            prune_plan := param (cfg_prune_plan cfg) True,
            yaw_goal_tolerance := param (cfg_yaw_goal_tolerance cfg) (5 / 100),
            xy_goal_tolerance := param (cfg_xy_goal_tolerance cfg) (10 / 100),
            acc_lim_x := param (cfg_acc_lim_x cfg) (25 / 10),
            acc_lim_y := param (cfg_acc_lim_y cfg) (25 / 10),
            acc_lim_theta := param (cfg_acc_lim_th cfg) (32 / 10),
            max_vel_th := param (cfg_max_rotational_vel cfg) 1,
            min_vel_th := - 1 * param (cfg_max_rotational_vel cfg) 1,
            min_in_place_vel_th := param (cfg_min_in_place_rotational_vel cfg) (4 / 10),
            initialized := True \<rparr>
      else st)"

text \<open>\<^verbatim>\<open>stopped\<close> (lines 212-217).\<close>

definition stopped :: "'q planner \<Rightarrow> bool" where
  "stopped st \<longleftrightarrow>
     \<bar>ang_z (base_odom st)\<bar> \<le> rot_stopped_velocity st
     \<and> \<bar>lin_x (base_odom st)\<bar> \<le> trans_stopped_velocity st
     \<and> \<bar>lin_y (base_odom st)\<bar> \<le> trans_stopped_velocity st"

text \<open>\<^verbatim>\<open>distance\<close> (lines 219-221).\<close>

definition distance :: "real \<Rightarrow> real \<Rightarrow> real \<Rightarrow> real \<Rightarrow> real" where
  "distance x1 y1 x2 y2 = sqrt ((x2 - x1) * (x2 - x1) + (y2 - y1) * (y2 - y1))"

text \<open>\<^verbatim>\<open>goalPositionReached\<close> (lines 223-226).\<close>

definition goalPositionReached :: "'q planner \<Rightarrow> 'q pose \<Rightarrow> real \<Rightarrow> real \<Rightarrow> bool" where
  "goalPositionReached st global_pose goal_x goal_y \<longleftrightarrow>
     \<bar>distance (pos_x global_pose) (pos_y global_pose) goal_x goal_y\<bar> \<le> xy_goal_tolerance st"

text \<open>\<^verbatim>\<open>goalOrientationReached\<close> (lines 228-231).\<close>

definition goalOrientationReached :: "'q env \<Rightarrow> 'q planner \<Rightarrow> 'q pose \<Rightarrow> real \<Rightarrow> bool" where
  "goalOrientationReached env st global_pose goal_th \<longleftrightarrow>
     \<bar>shortest_angular_distance env (getYaw env (orientation global_pose)) goal_th\<bar>
       \<le> yaw_goal_tolerance st"

text \<open>
  \<^verbatim>\<open>stopWithAccLimits\<close> (lines 233-260). The command is an in-out parameter: the
  function returns its verdict and the command as it leaves it.
\<close>

definition stopWithAccLimits ::
  "'q env \<Rightarrow> 'q planner \<Rightarrow> 'q pose \<Rightarrow> 'q pose \<Rightarrow> twist \<Rightarrow> bool \<times> twist" where
  "stopWithAccLimits env st global_pose robot_vel cmd_vel =
     (let vx = sign env (pos_x robot_vel) * max 0 (\<bar>pos_x robot_vel\<bar> - acc_lim_x st * (1 / 10));
          vy = sign env (pos_y robot_vel) * max 0 (\<bar>pos_y robot_vel\<bar> - acc_lim_y st * (1 / 10));
          vel_yaw = getYaw env (orientation robot_vel);
          vth = sign env vel_yaw * max 0 (\<bar>vel_yaw\<bar> - acc_lim_theta st * (1 / 10));
          yaw = getYaw env (orientation global_pose);
          valid_cmd = checkTrajectory env (pos_x global_pose) (pos_y global_pose) yaw
                        (pos_x robot_vel) (pos_y robot_vel) vel_yaw vx vy vth
      in if valid_cmd then (True, cmd_vel\<lparr>lin_x := vx, lin_y := vy, ang_z := vth\<rparr>)
         else (False, cmd_vel\<lparr>lin_x := 0, lin_y := 0, ang_z := 0\<rparr>))"

text \<open>
  Lines 269-282 of \<^verbatim>\<open>rotateToGoal\<close>: the angular velocity sample, from the angular
  difference to the goal and the current angular velocity.
\<close>

definition v_theta_samp :: "'q env \<Rightarrow> 'q planner \<Rightarrow> real \<Rightarrow> real \<Rightarrow> real" where
  "v_theta_samp env st ang_diff vel_yaw =
     (let v1 = (if ang_diff > 0
                then min (max_vel_th st) (max (min_in_place_vel_th st) ang_diff)
                else max (min_vel_th st) (min (- 1 * min_in_place_vel_th st) ang_diff));
          max_acc_vel = \<bar>vel_yaw\<bar> + acc_lim_theta st * (1 / 10);
          min_acc_vel = \<bar>vel_yaw\<bar> - acc_lim_theta st * (1 / 10);
          v2 = sign env v1 * min (max \<bar>v1\<bar> min_acc_vel) max_acc_vel;
          max_speed_to_stop = sqrt (2 * acc_lim_theta st * \<bar>ang_diff\<bar>)
      in sign env v2 * min max_speed_to_stop \<bar>v2\<bar>)"

text \<open>\<^verbatim>\<open>rotateToGoal\<close> (lines 262-298).\<close>

definition rotateToGoal ::
  "'q env \<Rightarrow> 'q planner \<Rightarrow> 'q pose \<Rightarrow> 'q pose \<Rightarrow> real \<Rightarrow> twist \<Rightarrow> bool \<times> twist" where
  "rotateToGoal env st global_pose robot_vel goal_th cmd_vel =
     (let yaw = getYaw env (orientation global_pose);
          vel_yaw = getYaw env (orientation robot_vel);
          cmd0 = cmd_vel\<lparr>lin_x := 0, lin_y := 0\<rparr>;
          ang_diff = shortest_angular_distance env yaw goal_th;
          v = v_theta_samp env st ang_diff vel_yaw;
          valid_cmd = checkTrajectory env (pos_x global_pose) (pos_y global_pose) yaw
                        (pos_x robot_vel) (pos_y robot_vel) vel_yaw 0 0 v
      in if valid_cmd then (True, cmd0\<lparr>ang_z := v\<rparr>)
         else (False, cmd0\<lparr>ang_z := 0\<rparr>))"

text \<open>\<^verbatim>\<open>odomCallback\<close> (lines 300-308): the three velocities of the message are stored.\<close>

definition odomCallback :: "twist \<Rightarrow> 'q planner \<Rightarrow> 'q planner" where
  "odomCallback msg st =
     st\<lparr>base_odom := (base_odom st)\<lparr>lin_x := lin_x msg, lin_y := lin_y msg, ang_z := ang_z msg\<rparr>\<rparr>"

text \<open>\<^verbatim>\<open>setPlan\<close> (lines 378-389).\<close>

definition setPlan :: "'q pose list \<Rightarrow> 'q planner \<Rightarrow> bool \<times> 'q planner" where
  "setPlan orig_global_plan st =
     (if \<not> initialized st then (False, st)
      else (True, st\<lparr>global_plan := orig_global_plan\<rparr>))"

subsection \<open>Pruning\<close>

text \<open>The squared distance both plan loops compute between a reference pose and a waypoint.\<close>

definition sq_dist_to :: "'q pose \<Rightarrow> 'q pose \<Rightarrow> real" where
  "sq_dist_to robot w =
     (let x_diff = pos_x robot - pos_x w; y_diff = pos_y robot - pos_y w
      in x_diff * x_diff + y_diff * y_diff)"

text \<open>
  What can stop the program: a failed \<^verbatim>\<open>ROS_ASSERT\<close>, and erasing at the end
  iterator of a vector (undefined in C++; unreachable behind the assertion).
\<close>

datatype fault = AssertionFailed | EraseAtEnd

text \<open>
  The loop of \<^verbatim>\<open>prunePlan\<close> (lines 630-642). The two arguments are the vectors from
  their iterators on: since only the first element is ever erased, both iterators stay
  at \<^verbatim>\<open>begin()\<close> and the rest of the vector is the vector.
\<close>

fun prune_loop :: "'q pose \<Rightarrow> 'q pose list \<Rightarrow> 'q pose list \<Rightarrow> fault + 'q pose list \<times> 'q pose list" where
  "prune_loop global_pose [] global = Inr ([], global)"
| "prune_loop global_pose (w # ws) global =
     (if sq_dist_to global_pose w < 1 then Inr (w # ws, global)
      else (case global of
              [] \<Rightarrow> Inl EraseAtEnd
            | g # gs \<Rightarrow> prune_loop global_pose ws gs))"

text \<open>\<^verbatim>\<open>prunePlan\<close> (lines 626-643): the assertion, then the loop.\<close>

definition prunePlan :: "'q pose \<Rightarrow> 'q pose list \<Rightarrow> 'q pose list \<Rightarrow> fault + 'q pose list \<times> 'q pose list" where
  "prunePlan global_pose plan global =
     (if \<not> length global \<ge> length plan then Inl AssertionFailed
      else prune_loop global_pose plan global)"

text \<open>A waypoint that pruning erases: its squared distance to the robot is at least 1.\<close>

definition far_from :: "'q pose \<Rightarrow> 'q pose \<Rightarrow> bool" where
  "far_from global_pose w \<longleftrightarrow> 1 \<le> sq_dist_to global_pose w"

subsection \<open>Windowing the plan\<close>

text \<open>The largest finite double, the initial value of \<^verbatim>\<open>sq_dist\<close> (line 420).\<close>

definition DBL_MAX :: real where
  "DBL_MAX = 2 ^ 1024 - 2 ^ 971"

text \<open>
  \<^verbatim>\<open>operator[]\<close> and \<^verbatim>\<open>back()\<close> of \<^verbatim>\<open>std::vector\<close> hand out a reference
  without a bounds check. The model keeps what the reference is bound to: \<open>None\<close> when
  the index is outside the vector (no such element exists; the call is undefined in C++).
\<close>

definition vec_at :: "'a list \<Rightarrow> nat \<Rightarrow> 'a option" where
  "vec_at xs i = (if i < length xs then Some (xs ! i) else None)"

definition vec_back :: "'a list \<Rightarrow> 'a option" where
  "vec_back xs = (if xs = [] then None else Some (last xs))"

text \<open>
  The first loop of \<^verbatim>\<open>transformGlobalPlan\<close> (lines 423-428). The list is the plan
  from index \<open>i\<close> on; the result is the plan from the final \<open>i\<close> on and the final
  \<^verbatim>\<open>sq_dist\<close>.
\<close>

fun skip_far :: "'q pose \<Rightarrow> real \<Rightarrow> 'q pose list \<Rightarrow> real \<Rightarrow> 'q pose list \<times> real" where
  "skip_far robot_pose sq_dist_threshold [] sq_dist = ([], sq_dist)"
| "skip_far robot_pose sq_dist_threshold (p # ps) sq_dist =
     (if sq_dist > sq_dist_threshold
      then skip_far robot_pose sq_dist_threshold ps (sq_dist_to robot_pose p)
      else (p # ps, sq_dist))"

text \<open>Lines 439-444: a plan pose sent through the transform and stamped.\<close>

definition to_global :: "'q transform \<Rightarrow> string \<Rightarrow> 'q pose \<Rightarrow> 'q pose" where
  "to_global transform gframe p =
     (tf_apply transform p)\<lparr>stamp := tf_stamp transform, frame_id := gframe\<rparr>"

text \<open>
  The second loop (lines 434-449), again on the plan from index \<open>i\<close> on; the result is
  what the loop appends to \<^verbatim>\<open>transformed_plan\<close>.
\<close>

fun transform_near ::
  "'q transform \<Rightarrow> string \<Rightarrow> 'q pose \<Rightarrow> real \<Rightarrow> 'q pose list \<Rightarrow> real \<Rightarrow> 'q pose list" where
  "transform_near transform gframe robot_pose sq_dist_threshold [] sq_dist = []"
| "transform_near transform gframe robot_pose sq_dist_threshold (p # ps) sq_dist =
     (if sq_dist < sq_dist_threshold
      then to_global transform gframe p
           # transform_near transform gframe robot_pose sq_dist_threshold ps
               (sq_dist_to robot_pose p)
      else [])"

text \<open>
  The result of \<^verbatim>\<open>transformGlobalPlan\<close>: the returned flag, the output vector, and
  what the reference \<^verbatim>\<open>plan_pose\<close> of line 392 is bound to.
\<close>

record 'q tgp_result =
  tgp_ok :: bool
  tgp_plan :: "'q pose list"
  tgp_plan_pose :: "'q pose option"

text \<open>Line 416: half the longer side of the costmap.\<close>

definition dist_threshold :: "'q env \<Rightarrow> real" where
  "dist_threshold env =
     max (real (getSizeInCellsX env) * getResolution env / 2)
         (real (getSizeInCellsY env) * getResolution env / 2)"

text \<open>
  \<^verbatim>\<open>transformGlobalPlan\<close> (lines 391-468). The reference to element 0 is taken first
  (line 392), before the size check of line 397; \<^verbatim>\<open>!global_plan_.size() > 0\<close> negates
  the size and compares the resulting 0 or 1 with 0. Each of the three caught exceptions
  returns false.
\<close>

definition transformGlobalPlan :: "'q env \<Rightarrow> 'q planner \<Rightarrow> 'q tgp_result" where
  "transformGlobalPlan env st =
     (let plan_pose = vec_at (global_plan st) 0;
          failed = \<lparr>tgp_ok = False, tgp_plan = [], tgp_plan_pose = plan_pose\<rparr>
      in if (if length (global_plan st) = 0 then 1 else 0) > (0 :: int) then failed
         else
           (case lookupTransform env (global_frame st)
                   (frame_id (the plan_pose)) (stamp (the plan_pose)) of
              Inl ex \<Rightarrow> failed
            | Inr transform \<Rightarrow>
                (case transformPose env (frame_id (the plan_pose)) (getBaseFrameID env) of
                   Inl ex \<Rightarrow> failed
                 | Inr robot_pose \<Rightarrow>
                     (let sq_dist_threshold = dist_threshold env * dist_threshold env;
                          (rest, sq_dist) =
                             skip_far robot_pose sq_dist_threshold (global_plan st) DBL_MAX
                      in \<lparr>tgp_ok = True,
                          tgp_plan = transform_near transform (global_frame st) robot_pose
                                       sq_dist_threshold rest sq_dist,
                          tgp_plan_pose = plan_pose\<rparr>))))"

subsection \<open>Goal test\<close>

text \<open>
  \<^verbatim>\<open>isGoalReached\<close> (lines 310-376). The reference to the last plan pose is taken
  at line 316, before the size check of line 320.
\<close>

definition isGoalReached :: "'q env \<Rightarrow> 'q planner \<Rightarrow> bool" where
  "isGoalReached env st =
     (if \<not> initialized st then False
      else
        (let plan_goal_pose = vec_back (global_plan st)
         in if (if length (global_plan st) = 0 then 1 else 0) > (0 :: int) then False
            else
              (case lookupTransform env (global_frame st)
                      (frame_id (the plan_goal_pose)) (stamp (the plan_goal_pose)) of
                 Inl ex \<Rightarrow> False
               | Inr transform \<Rightarrow>
                   (let goal_pose = to_global transform (global_frame st) (the plan_goal_pose);
                        goal_x = pos_x goal_pose;
                        goal_y = pos_y goal_pose;
                        goal_th = getYaw env (orientation goal_pose)
                    in case getRobotPose env of
                         None \<Rightarrow> False
                       | Some global_pose \<Rightarrow>
                           (if goalPositionReached st global_pose goal_x goal_y
                            then (if goalOrientationReached env st global_pose goal_th
                                  then (if stopped st then True else False)
                                  else False)
                            else False)))))"

subsection \<open>The control cycle\<close>

datatype topic = Global_plan_topic | Local_plan_topic

text \<open>
  \<^verbatim>\<open>publishPlan\<close> (lines 645-662): an empty path publishes nothing. The list \<open>sent\<close>
  collects what was published, oldest first.
\<close>

definition publishPlan ::
  "'q pose list \<Rightarrow> topic \<Rightarrow> (topic \<times> 'q pose list) list \<Rightarrow> (topic \<times> 'q pose list) list" where
  "publishPlan path pub sent = (if path = [] then sent else sent @ [(pub, path)])"

text \<open>
  What a call of \<^verbatim>\<open>computeVelocityCommands\<close> leaves behind: the returned flag, the
  caller's command (an in-out parameter), the controller and the published paths.
\<close>

record 'q cycle_result =
  cr_ok :: bool
  cr_cmd :: twist
  cr_planner :: "'q planner"
  cr_published :: "(topic \<times> 'q pose list) list"

text \<open>Lines 488-490: pruning, when the parameter asks for it.\<close>

definition pruned_plans ::
  "'q planner \<Rightarrow> 'q pose \<Rightarrow> 'q pose list \<Rightarrow> fault + 'q pose list \<times> 'q pose list" where
  "pruned_plans st global_pose transformed_plan =
     (if prune_plan st then prunePlan global_pose transformed_plan (global_plan st)
      else Inr (transformed_plan, global_plan st))"

text \<open>Lines 499-514: the odometry velocity as a pose in the base frame.\<close>

definition robot_velocity :: "'q env \<Rightarrow> 'q planner \<Rightarrow> 'q pose" where
  "robot_velocity env st =
     \<lparr>frame_id = robot_base_frame st, stamp = 0,
      pos_x = lin_x (base_odom st), pos_y = lin_y (base_odom st), pos_z = 0,
      orientation = createQuaternionFromYaw env (ang_z (base_odom st))\<rparr>"

text \<open>
  Lines 538-578: the robot is at the goal position. When it is not oriented, the plan is
  handed to the controller and \<^verbatim>\<open>findBestPath\<close> runs (lines 549-550), but neither the
  path nor the drive commands it returns are used. The two publications come last; the
  local plan is still empty there.
\<close>

definition goal_branch ::
  "'q env \<Rightarrow> 'q planner \<Rightarrow> 'q pose \<Rightarrow> 'q pose \<Rightarrow> 'q pose list \<Rightarrow> real \<Rightarrow> twist
     \<Rightarrow> 'q cycle_result" where
  "goal_branch env st global_pose robot_vel transformed_plan goal_th cmd_vel =
     (let published =
            publishPlan [] Local_plan_topic (publishPlan transformed_plan Global_plan_topic [])
      in if goalOrientationReached env st global_pose goal_th then
           \<lparr>cr_ok = True, cr_cmd = cmd_vel\<lparr>lin_x := 0, lin_y := 0, ang_z := 0\<rparr>,
            cr_planner = st\<lparr>rotating_to_goal := False\<rparr>, cr_published = published\<rparr>
         else
           (case findBestPath env transformed_plan global_pose robot_vel of
              (path, drive_cmds) \<Rightarrow>
                if \<not> rotating_to_goal st \<and> \<not> stopped st then
                  (case stopWithAccLimits env st global_pose robot_vel cmd_vel of
                     (valid, cmd) \<Rightarrow>
                       if \<not> valid
                       then \<lparr>cr_ok = False, cr_cmd = cmd, cr_planner = st, cr_published = []\<rparr>
                       else \<lparr>cr_ok = True, cr_cmd = cmd, cr_planner = st,
                             cr_published = published\<rparr>)
                else
                  (let st' = st\<lparr>rotating_to_goal := True\<rparr>
                   in case rotateToGoal env st' global_pose robot_vel goal_th cmd_vel of
                        (valid, cmd) \<Rightarrow>
                          if \<not> valid
                          then \<lparr>cr_ok = False, cr_cmd = cmd, cr_planner = st',
                                cr_published = []\<rparr>
                          else \<lparr>cr_ok = True, cr_cmd = cmd, cr_planner = st',
                                cr_published = published\<rparr>)))"

text \<open>
  Lines 581-623: the controller runs. The drive commands are copied into the command
  before the cost of the path is looked at.
\<close>

definition drive_branch ::
  "'q env \<Rightarrow> 'q planner \<Rightarrow> 'q pose \<Rightarrow> 'q pose \<Rightarrow> 'q pose list \<Rightarrow> twist \<Rightarrow> 'q cycle_result" where
  "drive_branch env st global_pose robot_vel transformed_plan cmd_vel =
     (case findBestPath env transformed_plan global_pose robot_vel of
        (path, drive_cmds) \<Rightarrow>
          (let cmd = cmd_vel\<lparr>lin_x := pos_x drive_cmds, lin_y := pos_y drive_cmds,
                            ang_z := getYaw env (orientation drive_cmds)\<rparr>
           in if cost path < 0 then
                \<lparr>cr_ok = False, cr_cmd = cmd, cr_planner = st,
                 cr_published =
                   publishPlan [] Local_plan_topic
                     (publishPlan transformed_plan Global_plan_topic [])\<rparr>
              else
                (let local_plan =
                       map (\<lambda>(p_x, p_y, p_th).
                              \<lparr>frame_id = global_frame st, stamp = time_now env,
                               pos_x = p_x, pos_y = p_y, pos_z = 0,
                               orientation = createQuaternionFromYaw env p_th\<rparr>)
                           (points path)
                 in \<lparr>cr_ok = True, cr_cmd = cmd, cr_planner = st,
                     cr_published =
                       publishPlan local_plan Local_plan_topic
                         (publishPlan transformed_plan Global_plan_topic [])\<rparr>)))"

text \<open>
  \<^verbatim>\<open>computeVelocityCommands\<close> (lines 470-624). A failed assertion inside
  \<^verbatim>\<open>prunePlan\<close> ends the call with a fault; every other path returns. The calls
  that only change the collaborators (clearing the footprint, copying the costmap,
  \<^verbatim>\<open>tc_->updatePlan\<close>) leave no trace in the model: what the collaborators answer
  during the cycle is \<open>env\<close>.
\<close>

definition computeVelocityCommands ::
  "'q env \<Rightarrow> 'q planner \<Rightarrow> twist \<Rightarrow> fault + 'q cycle_result" where
  "computeVelocityCommands env st cmd_vel =
     (if \<not> initialized st then
        Inr \<lparr>cr_ok = False, cr_cmd = cmd_vel, cr_planner = st, cr_published = []\<rparr>
      else
        (case getRobotPose env of
           None \<Rightarrow> Inr \<lparr>cr_ok = False, cr_cmd = cmd_vel, cr_planner = st, cr_published = []\<rparr>
         | Some global_pose \<Rightarrow>
             (let tgp = transformGlobalPlan env st
              in if \<not> tgp_ok tgp then
                   Inr \<lparr>cr_ok = False, cr_cmd = cmd_vel, cr_planner = st, cr_published = []\<rparr>
                 else
                   (case pruned_plans st global_pose (tgp_plan tgp) of
                      Inl f \<Rightarrow> Inl f
                    | Inr (transformed_plan, retained) \<Rightarrow>
                        (let st1 = st\<lparr>global_plan := retained\<rparr>;
                             robot_vel = robot_velocity env st1
                         in if transformed_plan = [] then
                              Inr \<lparr>cr_ok = False, cr_cmd = cmd_vel, cr_planner = st1,
                                   cr_published = []\<rparr>
                            else
                              (let goal_point = last transformed_plan;
                                   goal_x = pos_x goal_point;
                                   goal_y = pos_y goal_point;
                                   goal_th = getYaw env (orientation goal_point)
                               in if goalPositionReached st1 global_pose goal_x goal_y then
                                    Inr (goal_branch env st1 global_pose robot_vel
                                           transformed_plan goal_th cmd_vel)
                                  else
                                    Inr (drive_branch env st1 global_pose robot_vel
                                           transformed_plan cmd_vel)))))))"

subsection \<open>Runs of the controller\<close>

text \<open>
  The controller states a run can reach: the constructor leaves \<open>initialized\<close> false
  (line 54); then \<open>initialize\<close>, \<open>setPlan\<close>, the odometry callback and control cycles
  follow in any order, each against whatever the collaborators answer at that moment.
\<close>

inductive reachable :: "'q planner \<Rightarrow> bool" where
  constructed: "\<not> initialized st \<Longrightarrow> reachable st"
| initialize: "reachable st \<Longrightarrow> reachable (initialize env cfg st)"
| setPlan: "reachable st \<Longrightarrow> reachable (snd (setPlan plan st))"
| odomCallback: "reachable st \<Longrightarrow> reachable (odomCallback msg st)"
| cycle: "reachable st \<Longrightarrow> computeVelocityCommands env st cmd_vel = Inr r
            \<Longrightarrow> reachable (cr_planner r)"

text \<open>The controller after a cycle (unchanged when the cycle faults).\<close>

definition cycle_planner :: "'q env \<Rightarrow> 'q planner \<Rightarrow> twist \<Rightarrow> 'q planner" where
  "cycle_planner env st cmd_vel =
     (case computeVelocityCommands env st cmd_vel of Inr r \<Rightarrow> cr_planner r | Inl f \<Rightarrow> st)"

text \<open>
  What a cycle observes at its goal test (line 537): \<open>None\<close> when the cycle ends before
  the test, else whether the robot is within the xy tolerance of the last transformed
  plan pose, and whether it is within the yaw tolerance of that pose.
\<close>

definition goal_check :: "'q env \<Rightarrow> 'q planner \<Rightarrow> (bool \<times> bool) option" where
  "goal_check env st =
     (if \<not> initialized st then None
      else case getRobotPose env of
             None \<Rightarrow> None
           | Some global_pose \<Rightarrow>
               if \<not> tgp_ok (transformGlobalPlan env st) then None
               else (case pruned_plans st global_pose (tgp_plan (transformGlobalPlan env st)) of
                       Inl f \<Rightarrow> None
                     | Inr (transformed_plan, retained) \<Rightarrow>
                         if transformed_plan = [] then None
                         else Some
                           (goalPositionReached st global_pose
                              (pos_x (last transformed_plan)) (pos_y (last transformed_plan)),
                            goalOrientationReached env st global_pose
                              (getYaw env (orientation (last transformed_plan))))))"

subsection \<open>The specification's formulas\<close>

text \<open>
  The deceleration step of the specification's \<open>stop_with_acc_limits\<close>:
  \<open>sign(v) \<cdot> max(0, |v| - acc \<cdot> 0.1)\<close>, for a given sign function.
\<close>

definition decelerated :: "(real \<Rightarrow> real) \<Rightarrow> real \<Rightarrow> real \<Rightarrow> real" where
  "decelerated sgnf v acc = sgnf v * max 0 (\<bar>v\<bar> - acc * (1 / 10))"

text \<open>
  The three steps of the specification's \<open>rotate_to_goal\<close>: the sign-preserving clamp
  of a value into \<open>[lo, hi]\<close> (the magnitude is clamped, the sign kept; zero counts as
  not positive), the clamp of a magnitude into an interval, and the cap of a magnitude.
\<close>

definition clamp_signed :: "real \<Rightarrow> real \<Rightarrow> real \<Rightarrow> real" where
  "clamp_signed a lo hi = (if a > 0 then min hi (max lo a) else - min hi (max lo (- a)))"

definition clamp_magnitude :: "(real \<Rightarrow> real) \<Rightarrow> real \<Rightarrow> real \<Rightarrow> real \<Rightarrow> real" where
  "clamp_magnitude sgnf v lo hi = sgnf v * min (max \<bar>v\<bar> lo) hi"

definition cap_magnitude :: "(real \<Rightarrow> real) \<Rightarrow> real \<Rightarrow> real \<Rightarrow> real" where
  "cap_magnitude sgnf v m = sgnf v * min m \<bar>v\<bar>"

definition rotate_sample :: "'q env \<Rightarrow> 'q planner \<Rightarrow> real \<Rightarrow> real \<Rightarrow> real" where
  "rotate_sample env st ang_diff vel_yaw =
     cap_magnitude (sign env)
       (clamp_magnitude (sign env)
          (clamp_signed ang_diff (min_in_place_vel_th st) (max_vel_th st))
          (\<bar>vel_yaw\<bar> - acc_lim_theta st * (1 / 10))
          (\<bar>vel_yaw\<bar> + acc_lim_theta st * (1 / 10)))
       (sqrt (2 * acc_lim_theta st * \<bar>ang_diff\<bar>))"

text \<open>A plan point outside the window of \<open>transformGlobalPlan\<close>.\<close>

definition outside_window :: "'q pose \<Rightarrow> real \<Rightarrow> 'q pose \<Rightarrow> bool" where
  "outside_window robot_pose sq_dist_threshold p \<longleftrightarrow>
     sq_dist_to robot_pose p > sq_dist_threshold"

text \<open>A plan point strictly within the window.\<close>

definition inside_window :: "'q pose \<Rightarrow> real \<Rightarrow> 'q pose \<Rightarrow> bool" where
  "inside_window robot_pose sq_dist_threshold p \<longleftrightarrow>
     sq_dist_to robot_pose p < sq_dist_threshold"

text \<open>
  The single run of the plan that the window selects: the plan points strictly within the
  window, one after the other, from the first plan point that is not outside the window
  on. (The run is empty when no plan point is within the window, and when the first one
  that is lies exactly on its border.)
\<close>

definition window_run :: "'q pose \<Rightarrow> real \<Rightarrow> 'q pose list \<Rightarrow> 'q pose list" where
  "window_run robot_pose sq_dist_threshold plan =
     takeWhile (inside_window robot_pose sq_dist_threshold)
       (dropWhile (outside_window robot_pose sq_dist_threshold) plan)"

subsection \<open>The odometry lock\<close>

text \<open>
  What a thread does to the odometry mutex and to \<^verbatim>\<open>base_odom_\<close>, in program order.
\<close>

datatype odom_event = Acquire | Release | ReadOdom | WriteOdom

text \<open>
  The statement \<^verbatim>\<open>boost::recursive_mutex::scoped_lock(odom_lock_);\<close> (lines 213, 302
  and 555) is a declaration: it declares a local, default-constructed lock named
  \<^verbatim>\<open>odom_lock_\<close>, which owns no mutex. It acquires and releases nothing.
\<close>

definition scoped_lock_declaration :: "odom_event list" where
  "scoped_lock_declaration = []"

text \<open>
  Were the same statement read as an expression, it would build a temporary lock on the
  member mutex and destroy it, releasing the mutex, at the end of the statement.
\<close>

definition scoped_lock_temporary :: "odom_event list" where
  "scoped_lock_temporary = [Acquire, Release]"

text \<open>
  \<^verbatim>\<open>odomCallback\<close> (lines 302-305): the lock statement, then three writes. The events
  of the lock statement are a parameter of this and the next two definitions.
\<close>

definition odomCallback_events :: "odom_event list \<Rightarrow> odom_event list" where
  "odomCallback_events lock_statement = lock_statement @ [WriteOdom, WriteOdom, WriteOdom]"

text \<open>\<^verbatim>\<open>stopped\<close> (lines 213-216): the lock statement, then three reads.\<close>

definition stopped_events :: "odom_event list \<Rightarrow> odom_event list" where
  "stopped_events lock_statement = lock_statement @ [ReadOdom, ReadOdom, ReadOdom]"

text \<open>
  \<^verbatim>\<open>computeVelocityCommands\<close>: lines 502-506 lock the mutex, read the three
  velocities and unlock it; lines 553-557 (robot at the goal position, not oriented) copy
  the odometry after the lock statement, and line 560 calls \<^verbatim>\<open>stopped\<close> unless the
  robot is rotating to goal.
\<close>

definition velocity_copy_events :: "odom_event list" where
  "velocity_copy_events = [Acquire, ReadOdom, ReadOdom, ReadOdom, Release]"

definition goal_branch_events :: "odom_event list \<Rightarrow> bool \<Rightarrow> odom_event list" where
  "goal_branch_events lock_statement rotating =
     lock_statement @ [ReadOdom]
     @ (if \<not> rotating then stopped_events lock_statement else [])"

text \<open>Every access of the event list happens while the mutex is held.\<close>

fun guarded :: "nat \<Rightarrow> odom_event list \<Rightarrow> bool" where
  "guarded held [] = True"
| "guarded held (Acquire # es) = guarded (Suc held) es"
| "guarded held (Release # es) = guarded (held - 1) es"
| "guarded held (ReadOdom # es) = (0 < held \<and> guarded held es)"
| "guarded held (WriteOdom # es) = (0 < held \<and> guarded held es)"

subsection \<open>Scenarios\<close>

text \<open>
  Concrete collaborators and plans, to evaluate the model on. The quaternion is
  represented by its yaw. The robot stands at the origin of a 10 m by 6 m costmap
  (window 5 m), every transform is the identity, every trajectory is valid.
\<close>

definition waypoint :: "real \<Rightarrow> real \<Rightarrow> real \<Rightarrow> real pose" where
  "waypoint x y th =
     \<lparr>frame_id = ''map'', stamp = 0, pos_x = x, pos_y = y, pos_z = 0, orientation = th\<rparr>"

definition ros_sign :: "real \<Rightarrow> real" where
  "ros_sign x = (if x < 0 then - 1 else 1)"

definition zero_twist :: twist where
  "zero_twist = \<lparr>lin_x = 0, lin_y = 0, lin_z = 0, ang_x = 0, ang_y = 0, ang_z = 0\<rparr>"

definition scn_env :: "real env" where
  "scn_env =
     \<lparr>getRobotPose = Some (waypoint 0 0 0),
      getGlobalFrameID = ''map'',
      getBaseFrameID = ''base_link'',
      getSizeInCellsX = 100,
      getSizeInCellsY = 60,
      getResolution = 1 / 10,
      time_now = 7,
      lookupTransform = (\<lambda>target source t. Inr \<lparr>tf_stamp = 0, tf_apply = (\<lambda>p. p)\<rparr>),
      transformPose = (\<lambda>target base. Inr (waypoint 0 0 0)),
      checkTrajectory = (\<lambda>x y th vx vy vth vx_samp vy_samp vth_samp. True),
      findBestPath = (\<lambda>plan global_pose robot_vel.
                        (\<lparr>cost = 1, points = [(0, 0, 0)]\<rparr>, waypoint (3 / 10) 0 (1 / 10))),
      getYaw = (\<lambda>q. q),
      createQuaternionFromYaw = (\<lambda>y. y),
      shortest_angular_distance = (\<lambda>a b. b - a),
      sign = ros_sign\<rparr>"

text \<open>The same world with every trajectory check failing.\<close>

definition scn_env_blocked :: "real env" where
  "scn_env_blocked =
     scn_env\<lparr>checkTrajectory := (\<lambda>x y th vx vy vth vx_samp vy_samp vth_samp. False)\<rparr>"

text \<open>The same world with the robot half a metre further along the x axis.\<close>

definition scn_env_moved :: "real env" where
  "scn_env_moved =
     scn_env\<lparr>getRobotPose := Some (waypoint (1 / 2) 0 0),
             transformPose := (\<lambda>target base. Inr (waypoint (1 / 2) 0 0))\<rparr>"

text \<open>The same world with no feasible trajectory: the best path has cost \<open>-1\<close>.\<close>

definition scn_env_stuck :: "real env" where
  "scn_env_stuck =
     scn_env\<lparr>findBestPath := (\<lambda>plan global_pose robot_vel.
                 (\<lparr>cost = - 1, points = []\<rparr>, waypoint (3 / 10) 0 (1 / 10)))\<rparr>"

text \<open>A freshly constructed controller, and the default parameters.\<close>

definition scn_fresh :: "real planner" where
  "scn_fresh =
     \<lparr>initialized = False, rotating_to_goal = False, base_odom = zero_twist,
      global_plan = [], prune_plan = False, yaw_goal_tolerance = 0, xy_goal_tolerance = 0,
      acc_lim_x = 0, acc_lim_y = 0, acc_lim_theta = 0, max_vel_th = 0, min_vel_th = 0,
      min_in_place_vel_th = 0, rot_stopped_velocity = 0, trans_stopped_velocity = 0,
      global_frame = [], robot_base_frame = []\<rparr>"

definition scn_cfg :: params where
  "scn_cfg =
     \<lparr>cfg_prune_plan = None, cfg_yaw_goal_tolerance = None, cfg_xy_goal_tolerance = None,
      cfg_acc_lim_x = None, cfg_acc_lim_y = None, cfg_acc_lim_th = None,
      cfg_max_rotational_vel = None, cfg_min_in_place_rotational_vel = None\<rparr>"

text \<open>The initialized controller with no plan, and with a plan.\<close>

definition scn_planner :: "real planner" where
  "scn_planner = initialize scn_env scn_cfg scn_fresh"

definition scn_with_plan :: "real pose list \<Rightarrow> real planner" where
  "scn_with_plan plan = snd (setPlan plan scn_planner)"

text \<open>
  Plans: one that ends at the robot with a yaw of 1 rad, one that ends at the robot with
  the robot's yaw, one that leads 3 m ahead, and one that leaves the window and comes back.
\<close>

definition plan_turn :: "real pose list" where
  "plan_turn = [waypoint (- 1 / 2) 0 0, waypoint 0 0 1]"

definition plan_arrived :: "real pose list" where
  "plan_arrived = [waypoint (- 1 / 2) 0 0, waypoint 0 0 0]"

definition plan_ahead :: "real pose list" where
  "plan_ahead = [waypoint 0 0 0, waypoint (1 / 2) 0 0, waypoint 3 0 0]"

definition plan_detour :: "real pose list" where
  "plan_detour =
     [waypoint 7 0 0, waypoint 4 0 0, waypoint 3 0 0, waypoint 6 0 0, waypoint 8 0 0,
      waypoint 1 0 0]"

text \<open>An odometry message of a robot driving at 0.5 m/s.\<close>

definition odom_moving :: twist where
  "odom_moving = zero_twist\<lparr>lin_x := 1 / 2\<rparr>"

section \<open>The scenarios, evaluated\<close>

lemma scn_planner_eval:
  "scn_planner =
     \<lparr>initialized = True, rotating_to_goal = False, base_odom = zero_twist,
      global_plan = [], prune_plan = True, yaw_goal_tolerance = 5 / 100,
      xy_goal_tolerance = 10 / 100, acc_lim_x = 25 / 10, acc_lim_y = 25 / 10,
      acc_lim_theta = 32 / 10, max_vel_th = 1, min_vel_th = - 1,
      min_in_place_vel_th = 4 / 10, rot_stopped_velocity = 1 / 100,
      trans_stopped_velocity = 1 / 100, global_frame = ''map'',
      robot_base_frame = ''base_link''\<rparr>"
  by (simp add: scn_planner_def initialize_def scn_fresh_def scn_cfg_def scn_env_def param_def)

lemma scn_with_plan_eval:
  "scn_with_plan plan = scn_planner\<lparr>global_plan := plan\<rparr>"
  by (simp add: scn_with_plan_def setPlan_def scn_planner_eval)

lemma scn_reachable: "reachable (scn_with_plan plan)"
proof -
  have "reachable scn_fresh"
    by (rule reachable.constructed) (simp add: scn_fresh_def)
  then have "reachable scn_planner"
    unfolding scn_planner_def by (rule reachable.initialize)
  then show ?thesis
    unfolding scn_with_plan_def by (rule reachable.setPlan)
qed

text \<open>The distance test without the square root.\<close>

lemma abs_distance_le_iff:
  "\<bar>distance x1 y1 x2 y2\<bar> \<le> t \<longleftrightarrow>
     0 \<le> t \<and> (x2 - x1) * (x2 - x1) + (y2 - y1) * (y2 - y1) \<le> t * t"
proof -
  let ?s = "(x2 - x1) * (x2 - x1) + (y2 - y1) * (y2 - y1)"
  have s: "0 \<le> ?s" by simp
  show ?thesis
  proof (cases "0 \<le> t")
    case True
    then have "sqrt ?s \<le> t \<longleftrightarrow> ?s \<le> t * t"
      using s by (metis abs_of_nonneg real_sqrt_abs2 real_sqrt_le_iff)
    with True s show ?thesis by (simp add: distance_def)
  next
    case False
    then show ?thesis by (simp add: distance_def) (smt (verit) real_sqrt_ge_zero s)
  qed
qed

lemma goalPositionReached_iff:
  "goalPositionReached st global_pose goal_x goal_y \<longleftrightarrow>
     0 \<le> xy_goal_tolerance st
     \<and> (goal_x - pos_x global_pose) * (goal_x - pos_x global_pose)
         + (goal_y - pos_y global_pose) * (goal_y - pos_y global_pose)
       \<le> xy_goal_tolerance st * xy_goal_tolerance st"
  by (simp add: goalPositionReached_def abs_distance_le_iff)

text \<open>The definitions a scenario unfolds.\<close>

lemmas scn_defs = scn_with_plan_eval scn_planner_eval scn_env_def scn_env_blocked_def
  scn_env_moved_def scn_env_stuck_def waypoint_def zero_twist_def odom_moving_def ros_sign_def
  plan_turn_def plan_arrived_def plan_ahead_def plan_detour_def

lemmas cycle_defs = transformGlobalPlan_def vec_at_def vec_back_def dist_threshold_def
  DBL_MAX_def sq_dist_to_def to_global_def pruned_plans_def prunePlan_def
  goalPositionReached_iff goalOrientationReached_def stopped_def
  robot_velocity_def publishPlan_def

section \<open>Pruning erases a prefix\<close>

lemma prune_loop_drop:
  "length plan \<le> length global \<Longrightarrow>
   prune_loop global_pose plan global =
     Inr (dropWhile (far_from global_pose) plan,
          drop (length (takeWhile (far_from global_pose) plan)) global)"
proof (induction plan arbitrary: global)
  case Nil
  then show ?case by simp
next
  case (Cons w ws)
  show ?case
  proof (cases "sq_dist_to global_pose w < 1")
    case True
    then show ?thesis by (simp add: far_from_def)
  next
    case False
    from Cons.prems obtain g gs where g: "global = g # gs"
      by (cases global) auto
    with Cons.prems have "length ws \<le> length gs" by simp
    from Cons.IH [OF this] False g show ?thesis
      by (simp add: far_from_def)
  qed
qed

text \<open>
  C3. For every robot pose and every pair of plans with the retained plan at least as
  long as the transformed one, \<open>prunePlan\<close> returns normally. With \<open>n\<close> the length of
  the longest prefix of the transformed plan whose waypoints are all at squared distance
  \<open>\<ge> 1\<close> from the robot, it erases exactly the first \<open>n\<close> elements of the transformed
  plan and, in lockstep, the first \<open>n\<close> elements of the retained plan: every erased
  waypoint of the transformed plan is far, the first kept one (if any) is at squared
  distance \<open>< 1\<close>, and both results are suffixes of the originals (no gaps).
\<close>

theorem prunePlan_erases_far_prefix:
  fixes global_pose :: "'q pose"
  assumes "length plan \<le> length global"
  defines "n \<equiv> length (takeWhile (far_from global_pose) plan)"
  shows "prunePlan global_pose plan global = Inr (drop n plan, drop n global)
         \<and> plan = take n plan @ drop n plan \<and> global = take n global @ drop n global
         \<and> suffix (drop n plan) plan \<and> suffix (drop n global) global
         \<and> list_all (far_from global_pose) (take n plan)
         \<and> (drop n plan = [] \<or> sq_dist_to global_pose (hd (drop n plan)) < 1)"
proof -
  have run: "prunePlan global_pose plan global = Inr (drop n plan, drop n global)"
    using assms by (simp add: prunePlan_def prune_loop_drop dropWhile_eq_drop)
  have erased: "list_all (far_from global_pose) (take n plan)"
    unfolding n_def
    by (simp add: takeWhile_eq_take [symmetric] list_all_iff) (meson set_takeWhileD)
  have kept: "drop n plan = [] \<or> sq_dist_to global_pose (hd (drop n plan)) < 1"
  proof (cases "dropWhile (far_from global_pose) plan")
    case Nil
    then show ?thesis by (simp add: n_def dropWhile_eq_drop)
  next
    case (Cons w ws)
    then have "\<not> far_from global_pose w"
      by (metis hd_dropWhile list.distinct(1) list.sel(1))
    with Cons show ?thesis
      by (simp add: n_def dropWhile_eq_drop [symmetric] far_from_def)
  qed
  show ?thesis
    using run erased kept by (simp add: suffix_drop)
qed

theorem prunePlan_erases_far_prefix_witness:
  "length [waypoint 3 0 0, waypoint (1 / 2) 0 0, waypoint 4 0 0]
     \<le> length [waypoint 9 0 0, waypoint 8 0 0, waypoint 3 0 0, waypoint 4 0 0]
   \<and> prunePlan (waypoint 0 0 0)
        [waypoint 3 0 0, waypoint (1 / 2) 0 0, waypoint 4 0 0]
        [waypoint 9 0 0, waypoint 8 0 0, waypoint 3 0 0, waypoint 4 0 0]
      = Inr ([waypoint (1 / 2) 0 0, waypoint 4 0 0],
             [waypoint 8 0 0, waypoint 3 0 0, waypoint 4 0 0])"
  using prunePlan_erases_far_prefix
          [of "[waypoint 3 0 0, waypoint (1 / 2) 0 0, waypoint 4 0 0]"
              "[waypoint 9 0 0, waypoint 8 0 0, waypoint 3 0 0, waypoint 4 0 0]"
              "waypoint 0 0 0"]
  by (simp add: far_from_def sq_dist_to_def waypoint_def)

section \<open>The control cycle, path by path\<close>

lemma skip_far_length:
  "length (fst (skip_far robot_pose thr plan sq)) \<le> length plan"
  by (induction plan arbitrary: sq) (auto intro: le_SucI)

lemma transform_near_length:
  "length (transform_near transform gframe robot_pose thr plan sq) \<le> length plan"
  by (induction plan arbitrary: sq) auto

lemma transformGlobalPlan_length:
  "length (tgp_plan (transformGlobalPlan env st)) \<le> length (global_plan st)"
proof -
  have "length (transform_near transform gframe robot_pose thr
                  (fst (skip_far robot_pose thr plan sq)) sq')
          \<le> length plan" for transform gframe and robot_pose :: "'a pose" and thr plan sq sq'
    using skip_far_length [of robot_pose thr plan sq]
      transform_near_length [of transform gframe robot_pose thr
        "fst (skip_far robot_pose thr plan sq)" sq']
    by (rule_tac order_trans)
  then show ?thesis
    by (simp add: transformGlobalPlan_def Let_def split_beta split: sum.splits)
qed

lemma prunePlan_returns:
  "length plan \<le> length global \<Longrightarrow> \<exists>r. prunePlan global_pose plan global = Inr r"
  by (simp add: prunePlan_def prune_loop_drop)

text \<open>Inside a cycle the assertion of \<open>prunePlan\<close> holds: pruning never faults there.\<close>

lemma pruned_plans_returns:
  "\<exists>tp retained. pruned_plans st global_pose (tgp_plan (transformGlobalPlan env st))
      = Inr (tp, retained)"
  using prunePlan_returns [OF transformGlobalPlan_length, of global_pose env st]
  by (auto simp: pruned_plans_def)

lemma cycle_uninitialized:
  "\<not> initialized st \<Longrightarrow>
   computeVelocityCommands env st cmd_vel =
     Inr \<lparr>cr_ok = False, cr_cmd = cmd_vel, cr_planner = st, cr_published = []\<rparr>"
  by (simp add: computeVelocityCommands_def)

lemma cycle_no_pose:
  "getRobotPose env = None \<Longrightarrow>
   computeVelocityCommands env st cmd_vel =
     Inr \<lparr>cr_ok = False, cr_cmd = cmd_vel, cr_planner = st, cr_published = []\<rparr>"
  by (simp add: computeVelocityCommands_def)

lemma cycle_no_transform:
  "\<not> tgp_ok (transformGlobalPlan env st) \<Longrightarrow>
   computeVelocityCommands env st cmd_vel =
     Inr \<lparr>cr_ok = False, cr_cmd = cmd_vel, cr_planner = st, cr_published = []\<rparr>"
  by (simp add: computeVelocityCommands_def Let_def split: option.splits)

lemma cycle_emptied:
  assumes "initialized st" and "getRobotPose env = Some global_pose"
    and "tgp_ok (transformGlobalPlan env st)"
    and "pruned_plans st global_pose (tgp_plan (transformGlobalPlan env st)) = Inr ([], retained)"
  shows "computeVelocityCommands env st cmd_vel =
     Inr \<lparr>cr_ok = False, cr_cmd = cmd_vel, cr_planner = st\<lparr>global_plan := retained\<rparr>,
          cr_published = []\<rparr>"
  using assms by (simp add: computeVelocityCommands_def Let_def)

lemma cycle_at_goal_test:
  assumes "initialized st" and "getRobotPose env = Some global_pose"
    and "tgp_ok (transformGlobalPlan env st)"
    and "pruned_plans st global_pose (tgp_plan (transformGlobalPlan env st))
           = Inr (transformed_plan, retained)"
    and "transformed_plan \<noteq> []"
  shows "computeVelocityCommands env st cmd_vel =
     Inr (if goalPositionReached st global_pose
               (pos_x (last transformed_plan)) (pos_y (last transformed_plan))
          then goal_branch env (st\<lparr>global_plan := retained\<rparr>) global_pose
                 (robot_velocity env (st\<lparr>global_plan := retained\<rparr>)) transformed_plan
                 (getYaw env (orientation (last transformed_plan))) cmd_vel
          else drive_branch env (st\<lparr>global_plan := retained\<rparr>) global_pose
                 (robot_velocity env (st\<lparr>global_plan := retained\<rparr>)) transformed_plan
                 cmd_vel)"
  using assms by (simp add: computeVelocityCommands_def Let_def goalPositionReached_def)

text \<open>The call always returns: no path of the cycle faults.\<close>

lemma computeVelocityCommands_returns:
  "\<exists>r. computeVelocityCommands env st cmd_vel = Inr r"
proof (cases "initialized st \<and> tgp_ok (transformGlobalPlan env st)")
  case False
  then show ?thesis
    using cycle_uninitialized [of st env cmd_vel] cycle_no_transform [of env st cmd_vel] by auto
next
  case True
  show ?thesis
  proof (cases "getRobotPose env")
    case None
    then show ?thesis by (simp add: cycle_no_pose)
  next
    case (Some global_pose)
    obtain tp retained where
      "pruned_plans st global_pose (tgp_plan (transformGlobalPlan env st)) = Inr (tp, retained)"
      using pruned_plans_returns by blast
    with True Some show ?thesis
      using cycle_emptied [of st env global_pose retained cmd_vel]
        cycle_at_goal_test [of st env global_pose tp retained cmd_vel]
      by (cases "tp = []") auto
  qed
qed

lemma goal_branch_flag:
  "cr_planner (goal_branch env st global_pose robot_vel plan goal_th cmd_vel) =
     st\<lparr>rotating_to_goal :=
          (if goalOrientationReached env st global_pose goal_th then False
           else rotating_to_goal st \<or> stopped st)\<rparr>"
  by (auto simp: goal_branch_def Let_def split: prod.splits)

lemma drive_branch_frame:
  "cr_planner (drive_branch env st global_pose robot_vel plan cmd_vel) = st"
  by (simp add: drive_branch_def Let_def split: prod.splits)

lemma goalOrientationReached_plan:
  "goalOrientationReached env (st\<lparr>global_plan := p\<rparr>) = goalOrientationReached env st"
  by (simp add: goalOrientationReached_def fun_eq_iff)

lemma stopped_plan: "stopped (st\<lparr>global_plan := p\<rparr>) = stopped st"
  by (simp add: stopped_def)

text \<open>
  What a cycle does to the controller: it replaces the retained plan (by its pruned
  version) and sets the flag as the goal test says; nothing else changes.
\<close>

lemma cycle_planner_flag:
  assumes "computeVelocityCommands env st cmd_vel = Inr r"
  shows "\<exists>retained. cr_planner r =
     st\<lparr>global_plan := retained,
        rotating_to_goal :=
          (case goal_check env st of
             Some (True, True) \<Rightarrow> False
           | Some (True, False) \<Rightarrow> rotating_to_goal st \<or> stopped st
           | _ \<Rightarrow> rotating_to_goal st)\<rparr>"
proof -
  have keep: "st = st\<lparr>global_plan := global_plan st, rotating_to_goal := rotating_to_goal st\<rparr>"
    by simp
  consider (uninit) "\<not> initialized st"
    | (nopose) "initialized st" "getRobotPose env = None"
    | (notf) global_pose where "initialized st" "getRobotPose env = Some global_pose"
        "\<not> tgp_ok (transformGlobalPlan env st)"
    | (emptied) global_pose retained where "initialized st" "getRobotPose env = Some global_pose"
        "tgp_ok (transformGlobalPlan env st)"
        "pruned_plans st global_pose (tgp_plan (transformGlobalPlan env st)) = Inr ([], retained)"
    | (test) global_pose tp retained where "initialized st" "getRobotPose env = Some global_pose"
        "tgp_ok (transformGlobalPlan env st)"
        "pruned_plans st global_pose (tgp_plan (transformGlobalPlan env st)) = Inr (tp, retained)"
        "tp \<noteq> []"
    using pruned_plans_returns [of st _ env] by (cases "getRobotPose env") blast+
  then show ?thesis
  proof cases
    case uninit
    with assms have "cr_planner r = st" by (auto simp: cycle_uninitialized)
    moreover from uninit have "goal_check env st = None" by (simp add: goal_check_def)
    ultimately show ?thesis using keep by (intro exI [of _ "global_plan st"]) simp
  next
    case nopose
    with assms have "cr_planner r = st" by (auto simp: cycle_no_pose)
    moreover from nopose have "goal_check env st = None" by (simp add: goal_check_def)
    ultimately show ?thesis using keep by (intro exI [of _ "global_plan st"]) simp
  next
    case notf
    with assms have "cr_planner r = st" by (auto simp: cycle_no_transform)
    moreover from notf have "goal_check env st = None" by (simp add: goal_check_def)
    ultimately show ?thesis using keep by (intro exI [of _ "global_plan st"]) simp
  next
    case emptied
    with assms have "cr_planner r = st\<lparr>global_plan := retained\<rparr>"
      by (auto simp: cycle_emptied)
    moreover from emptied have "goal_check env st = None" by (simp add: goal_check_def)
    ultimately show ?thesis by (intro exI [of _ retained]) simp
  next
    case test
    from test have gc: "goal_check env st =
        Some (goalPositionReached st global_pose (pos_x (last tp)) (pos_y (last tp)),
              goalOrientationReached env st global_pose (getYaw env (orientation (last tp))))"
      by (simp add: goal_check_def)
    from assms cycle_at_goal_test [OF test, of cmd_vel]
    have "cr_planner r = st\<lparr>global_plan := retained,
        rotating_to_goal :=
          (if goalPositionReached st global_pose (pos_x (last tp)) (pos_y (last tp))
           then (if goalOrientationReached env st global_pose (getYaw env (orientation (last tp)))
                 then False else rotating_to_goal st \<or> stopped st)
           else rotating_to_goal st)\<rparr>"
      by (auto simp: goal_branch_flag drive_branch_frame goalOrientationReached_plan stopped_plan)
    with gc show ?thesis by (intro exI [of _ retained]) auto
  qed
qed

section \<open>An invariant of the configuration\<close>

text \<open>
  Once initialized, the controller keeps \<open>min_vel_th = - max_vel_th\<close> (line 136) and
  the two stopped-velocity thresholds of lines 67-68: no operation writes them again.
\<close>

lemma reachable_config:
  "reachable st \<Longrightarrow> initialized st \<Longrightarrow>
     min_vel_th st = - max_vel_th st
     \<and> rot_stopped_velocity st = 1 / 100 \<and> trans_stopped_velocity st = 1 / 100"
proof (induction rule: reachable.induct)
  case (constructed st)
  then show ?case by simp
next
  case (initialize st env cfg)
  then show ?case by (cases "initialized st") (simp_all add: initialize_def)
next
  case (setPlan st plan)
  then show ?case by (simp add: setPlan_def split: if_splits)
next
  case (odomCallback st msg)
  then show ?case by (simp add: odomCallback_def)
next
  case (cycle st env cmd_vel r)
  from cycle_planner_flag [OF cycle.hyps(2)] obtain plan rot
    where "cr_planner r = st\<lparr>global_plan := plan, rotating_to_goal := rot\<rparr>" by blast
  with cycle show ?case by simp
qed

section \<open>Stopping and rotating at the goal\<close>

text \<open>
  C6. For every call of \<open>stopWithAccLimits\<close>, the candidate command on each axis is
  \<open>sign(v) \<cdot> max(0, |v| - acc \<cdot> 0.1)\<close> of that axis' current velocity and acceleration
  limit (the angular velocity being the yaw of the velocity pose). If the trajectory check
  accepts the candidate, it is the emitted command and the call returns true; otherwise
  the emitted command is zero on the three axes and the call returns false.
\<close>

theorem stopWithAccLimits_decelerates:
  fixes env :: "'q env" and st :: "'q planner" and robot_vel global_pose :: "'q pose"
  defines "vel_yaw \<equiv> getYaw env (orientation robot_vel)"
  defines "vx \<equiv> decelerated (sign env) (pos_x robot_vel) (acc_lim_x st)"
      and "vy \<equiv> decelerated (sign env) (pos_y robot_vel) (acc_lim_y st)"
      and "vth \<equiv> decelerated (sign env) vel_yaw (acc_lim_theta st)"
  shows "stopWithAccLimits env st global_pose robot_vel cmd_vel =
     (if checkTrajectory env (pos_x global_pose) (pos_y global_pose)
           (getYaw env (orientation global_pose))
           (pos_x robot_vel) (pos_y robot_vel) vel_yaw vx vy vth
      then (True, cmd_vel\<lparr>lin_x := vx, lin_y := vy, ang_z := vth\<rparr>)
      else (False, cmd_vel\<lparr>lin_x := 0, lin_y := 0, ang_z := 0\<rparr>))"
  by (simp add: stopWithAccLimits_def decelerated_def vel_yaw_def vx_def vy_def vth_def Let_def)

lemma clamp_signed_code:
  "lo' = - hi \<Longrightarrow>
   (if a > 0 then min hi (max lo a) else max lo' (min (- 1 * lo) a)) = clamp_signed a lo hi"
  by (auto simp: clamp_signed_def min_def max_def)

text \<open>
  C7. For every call of \<open>rotateToGoal\<close> on an initialized controller of a run, with
  \<open>ang_diff\<close> the shortest angular distance from the robot's yaw to the goal yaw and
  \<open>vel_yaw\<close> the current angular velocity: the angular sample is the sign-preserving
  clamp of \<open>ang_diff\<close> to \<open>[min_in_place_vel_th, max_vel_th]\<close>, then its magnitude
  clamped into \<open>[|vel_yaw| - acc_lim_theta \<cdot> 0.1, |vel_yaw| + acc_lim_theta \<cdot> 0.1]\<close>,
  then its magnitude capped by \<open>sqrt (2 \<cdot> acc_lim_theta \<cdot> |ang_diff|)\<close>
  (\<open>rotate_sample\<close>). The linear components of the command are zero. If the
  zero-translation trajectory check accepts the sample, it is the angular command and the
  call returns true; otherwise the angular command is zero and the call returns false.
\<close>

theorem rotateToGoal_sample:
  fixes env :: "'q env" and global_pose robot_vel :: "'q pose" and goal_th :: real
  assumes "reachable st" and "initialized st"
  defines "yaw \<equiv> getYaw env (orientation global_pose)"
      and "vel_yaw \<equiv> getYaw env (orientation robot_vel)"
  defines "v \<equiv> rotate_sample env st (shortest_angular_distance env yaw goal_th) vel_yaw"
  shows "rotateToGoal env st global_pose robot_vel goal_th cmd_vel =
     (if checkTrajectory env (pos_x global_pose) (pos_y global_pose) yaw
           (pos_x robot_vel) (pos_y robot_vel) vel_yaw 0 0 v
      then (True, cmd_vel\<lparr>lin_x := 0, lin_y := 0, ang_z := v\<rparr>)
      else (False, cmd_vel\<lparr>lin_x := 0, lin_y := 0, ang_z := 0\<rparr>))"
proof -
  have "min_vel_th st = - max_vel_th st"
    using reachable_config [OF assms(1,2)] by simp
  then have "v_theta_samp env st d w = rotate_sample env st d w" for d w
    unfolding v_theta_samp_def Let_def rotate_sample_def cap_magnitude_def clamp_magnitude_def
    by (simp only: clamp_signed_code)
  then show ?thesis
    by (simp add: rotateToGoal_def Let_def v_def yaw_def vel_yaw_def)
qed

theorem rotateToGoal_sample_witness:
  "reachable (scn_with_plan plan_turn) \<and> initialized (scn_with_plan plan_turn)
   \<and> rotateToGoal scn_env (scn_with_plan plan_turn) (waypoint 0 0 0) (waypoint 0 0 0) 1
        zero_twist
      = (True, zero_twist\<lparr>ang_z := 8 / 25\<rparr>)"
proof -
  have init: "initialized (scn_with_plan plan_turn)"
    by (simp add: scn_with_plan_eval scn_planner_eval)
  have "(8 / 25 :: real) \<le> sqrt (32 / 5)"
    by (rule real_le_rsqrt) (simp add: power2_eq_square)
  then have cap: "min (sqrt (32 / 5)) (8 / 25 :: real) = 8 / 25"
    by simp
  have "rotate_sample scn_env (scn_with_plan plan_turn) 1 0 = 8 / 25"
    by (simp add: rotate_sample_def cap_magnitude_def clamp_magnitude_def clamp_signed_def
          scn_with_plan_eval scn_planner_eval scn_env_def ros_sign_def cap)
  then show ?thesis
    using rotateToGoal_sample [where st = "scn_with_plan plan_turn" and env = scn_env
            and global_pose = "waypoint 0 0 0" and robot_vel = "waypoint 0 0 0"
            and goal_th = 1 and cmd_vel = zero_twist]
    by (simp add: scn_reachable init scn_env_def waypoint_def zero_twist_def)
qed

section \<open>The cycle at the goal position\<close>

lemma goal_branch_not_oriented:
  assumes "\<not> goalOrientationReached env st global_pose goal_th" and "plan \<noteq> []"
  shows "goal_branch env st global_pose robot_vel plan goal_th cmd_vel =
     (if \<not> rotating_to_goal st \<and> \<not> stopped st then
        (let action = stopWithAccLimits env st global_pose robot_vel cmd_vel
         in \<lparr>cr_ok = fst action, cr_cmd = snd action, cr_planner = st,
             cr_published = (if fst action then [(Global_plan_topic, plan)] else [])\<rparr>)
      else
        (let action = rotateToGoal env (st\<lparr>rotating_to_goal := True\<rparr>) global_pose robot_vel
                        goal_th cmd_vel
         in \<lparr>cr_ok = fst action, cr_cmd = snd action,
             cr_planner = st\<lparr>rotating_to_goal := True\<rparr>,
             cr_published = (if fst action then [(Global_plan_topic, plan)] else [])\<rparr>))"
  using assms by (simp add: goal_branch_def Let_def case_prod_beta publishPlan_def)

lemma stopWithAccLimits_zero:
  "fst (stopWithAccLimits env st global_pose robot_vel cmd_vel)
     \<or> lin_x (snd (stopWithAccLimits env st global_pose robot_vel cmd_vel)) = 0
       \<and> lin_y (snd (stopWithAccLimits env st global_pose robot_vel cmd_vel)) = 0
       \<and> ang_z (snd (stopWithAccLimits env st global_pose robot_vel cmd_vel)) = 0"
  unfolding stopWithAccLimits_def Let_def by (simp split: if_splits)

lemma rotateToGoal_zero:
  "fst (rotateToGoal env st global_pose robot_vel goal_th cmd_vel)
     \<or> lin_x (snd (rotateToGoal env st global_pose robot_vel goal_th cmd_vel)) = 0
       \<and> lin_y (snd (rotateToGoal env st global_pose robot_vel goal_th cmd_vel)) = 0
       \<and> ang_z (snd (rotateToGoal env st global_pose robot_vel goal_th cmd_vel)) = 0"
  unfolding rotateToGoal_def Let_def by (simp split: if_splits)

text \<open>
  C1 (amended). For every call of \<open>computeVelocityCommands\<close> that finds the robot within
  the xy tolerance of the last transformed plan pose but not within the yaw tolerance, the
  cycle issues a deceleration (when it is neither rotating to goal nor stopped) or a
  rotate-to-goal action. It returns true, after publishing the transformed plan, exactly
  when that action's trajectory check accepted the command. When the check rejects it, the
  call returns false at once: the command is zero on the three axes and nothing is
  published.
\<close>

theorem goal_position_cycle_result:
  fixes env :: "'q env" and st :: "'q planner" and global_pose :: "'q pose"
    and tp retained :: "'q pose list" and cmd_vel :: twist
  assumes "initialized st" and "getRobotPose env = Some global_pose"
    and "tgp_ok (transformGlobalPlan env st)"
    and "pruned_plans st global_pose (tgp_plan (transformGlobalPlan env st)) = Inr (tp, retained)"
    and "tp \<noteq> []"
    and "goalPositionReached st global_pose (pos_x (last tp)) (pos_y (last tp))"
    and "\<not> goalOrientationReached env st global_pose (getYaw env (orientation (last tp)))"
  defines "st1 \<equiv> st\<lparr>global_plan := retained\<rparr>"
  defines "stopping \<equiv> \<not> rotating_to_goal st \<and> \<not> stopped st"
  defines "action \<equiv>
     if stopping then stopWithAccLimits env st1 global_pose (robot_velocity env st1) cmd_vel
     else rotateToGoal env (st1\<lparr>rotating_to_goal := True\<rparr>) global_pose
            (robot_velocity env st1) (getYaw env (orientation (last tp))) cmd_vel"
  shows "computeVelocityCommands env st cmd_vel =
           Inr \<lparr>cr_ok = fst action, cr_cmd = snd action,
                cr_planner = (if stopping then st1 else st1\<lparr>rotating_to_goal := True\<rparr>),
                cr_published = (if fst action then [(Global_plan_topic, tp)] else [])\<rparr>
         \<and> (fst action
             \<or> lin_x (snd action) = 0 \<and> lin_y (snd action) = 0 \<and> ang_z (snd action) = 0)"
proof -
  have run: "computeVelocityCommands env st cmd_vel =
      Inr (goal_branch env st1 global_pose (robot_velocity env st1) tp
             (getYaw env (orientation (last tp))) cmd_vel)"
    using cycle_at_goal_test [OF assms(1-5), of cmd_vel] assms(6) by (simp add: st1_def)
  have no: "\<not> goalOrientationReached env st1 global_pose (getYaw env (orientation (last tp)))"
    using assms(7) by (simp add: st1_def goalOrientationReached_plan)
  have branch: "(\<not> rotating_to_goal st1 \<and> \<not> stopped st1) = stopping"
    by (simp add: stopping_def st1_def stopped_plan)
  have zero: "fst action
      \<or> lin_x (snd action) = 0 \<and> lin_y (snd action) = 0 \<and> ang_z (snd action) = 0"
  proof (cases stopping)
    case True
    then show ?thesis unfolding action_def using stopWithAccLimits_zero by simp
  next
    case False
    then show ?thesis unfolding action_def using rotateToGoal_zero by simp
  qed
  have "computeVelocityCommands env st cmd_vel =
           Inr \<lparr>cr_ok = fst action, cr_cmd = snd action,
                cr_planner = (if stopping then st1 else st1\<lparr>rotating_to_goal := True\<rparr>),
                cr_published = (if fst action then [(Global_plan_topic, tp)] else [])\<rparr>"
    unfolding run goal_branch_not_oriented [OF no assms(5)] branch action_def
    by (simp add: Let_def)
  with zero show ?thesis by simp
qed

lemma scn_turn_tgp:
  "transformGlobalPlan scn_env (scn_with_plan plan_turn) =
     \<lparr>tgp_ok = True, tgp_plan = [waypoint 0 0 1],
      tgp_plan_pose = Some (waypoint (- 1 / 2) 0 0)\<rparr>"
  by (simp add: scn_defs cycle_defs)

text \<open>
  The claim as stated fails: with the robot at the goal position, 1 rad off the goal yaw
  and stopped, and a rotate sample the trajectory check rejects, the call returns false.
\<close>

theorem goal_position_infeasible_rotate_counterexample:
  "goal_check scn_env_blocked (scn_with_plan plan_turn) = Some (True, False)
   \<and> computeVelocityCommands scn_env_blocked (scn_with_plan plan_turn) zero_twist =
       Inr \<lparr>cr_ok = False, cr_cmd = zero_twist,
            cr_planner = (scn_with_plan plan_turn)\<lparr>rotating_to_goal := True\<rparr>,
            cr_published = []\<rparr>"
  by (simp add: goal_check_def computeVelocityCommands_def goal_branch_def rotateToGoal_def
        Let_def scn_defs cycle_defs)

theorem goal_position_cycle_result_witness:
  "initialized (odomCallback odom_moving (scn_with_plan plan_turn))
   \<and> getRobotPose scn_env = Some (waypoint 0 0 0)
   \<and> tgp_ok (transformGlobalPlan scn_env (odomCallback odom_moving (scn_with_plan plan_turn)))
   \<and> pruned_plans (odomCallback odom_moving (scn_with_plan plan_turn)) (waypoint 0 0 0)
        (tgp_plan (transformGlobalPlan scn_env
                     (odomCallback odom_moving (scn_with_plan plan_turn))))
       = Inr ([waypoint 0 0 1], plan_turn)
   \<and> goalPositionReached (odomCallback odom_moving (scn_with_plan plan_turn)) (waypoint 0 0 0)
        (pos_x (last [waypoint 0 0 1])) (pos_y (last [waypoint 0 0 1]))
   \<and> \<not> goalOrientationReached scn_env (odomCallback odom_moving (scn_with_plan plan_turn))
          (waypoint 0 0 0) (getYaw scn_env (orientation (last [waypoint 0 0 1])))
   \<and> computeVelocityCommands scn_env (odomCallback odom_moving (scn_with_plan plan_turn))
        zero_twist
       = Inr \<lparr>cr_ok = True, cr_cmd = zero_twist\<lparr>lin_x := 1 / 4\<rparr>,
              cr_planner = odomCallback odom_moving (scn_with_plan plan_turn),
              cr_published = [(Global_plan_topic, [waypoint 0 0 1])]\<rparr>"
proof -
  let ?st = "odomCallback odom_moving (scn_with_plan plan_turn)"
  have h1: "initialized ?st"
    by (simp add: odomCallback_def scn_defs)
  have h2: "getRobotPose scn_env = Some (waypoint 0 0 0)"
    by (simp add: scn_defs)
  have tgp: "transformGlobalPlan scn_env ?st =
     \<lparr>tgp_ok = True, tgp_plan = [waypoint 0 0 1],
      tgp_plan_pose = Some (waypoint (- 1 / 2) 0 0)\<rparr>"
    by (simp add: odomCallback_def scn_defs cycle_defs)
  have h3: "tgp_ok (transformGlobalPlan scn_env ?st)"
    by (simp add: tgp)
  have h4: "pruned_plans ?st (waypoint 0 0 0) (tgp_plan (transformGlobalPlan scn_env ?st))
       = Inr ([waypoint 0 0 1], plan_turn)"
    by (simp add: tgp) (simp add: odomCallback_def scn_defs cycle_defs)
  have h5: "[waypoint 0 0 1] \<noteq> []"
    by simp
  have h6: "goalPositionReached ?st (waypoint 0 0 0)
        (pos_x (last [waypoint 0 0 1])) (pos_y (last [waypoint 0 0 1]))"
    by (simp add: odomCallback_def scn_defs cycle_defs)
  have h7: "\<not> goalOrientationReached scn_env ?st
          (waypoint 0 0 0) (getYaw scn_env (orientation (last [waypoint 0 0 1])))"
    by (simp add: odomCallback_def scn_defs cycle_defs)
  have stop: "stopWithAccLimits scn_env ?st (waypoint 0 0 0) (robot_velocity scn_env ?st)
                zero_twist
              = (True, zero_twist\<lparr>lin_x := 1 / 4\<rparr>)"
    by (simp add: stopWithAccLimits_def Let_def odomCallback_def scn_defs cycle_defs)
  have moving: "\<not> rotating_to_goal ?st \<and> \<not> stopped ?st"
    by (simp add: odomCallback_def scn_defs cycle_defs)
  have same: "?st\<lparr>global_plan := plan_turn\<rparr> = ?st"
    by (simp add: odomCallback_def scn_defs)
  show ?thesis
    using goal_position_cycle_result [OF h1 h2 h3 h4 h5 h6 h7, of zero_twist] h6 h7
    unfolding same
    by (simp add: h1 h2 h3 h4 moving stop)
qed

section \<open>A cycle without a feasible trajectory\<close>

text \<open>
  C10 (amended). For every cycle that runs the controller, that is, in which the robot is
  outside the xy tolerance of the last transformed plan pose, and in which every sampled
  trajectory is infeasible (the best path's cost is negative), \<open>computeVelocityCommands\<close>
  returns false, and the caller's command already holds the velocities that
  \<open>findBestPath\<close> wrote into the drive commands: it is not reset to zero.
\<close>

theorem infeasible_cycle_keeps_drive_command:
  fixes env :: "'q env" and st :: "'q planner" and global_pose drive_cmds :: "'q pose"
    and tp retained :: "'q pose list" and cmd_vel :: twist
  assumes "initialized st" and "getRobotPose env = Some global_pose"
    and "tgp_ok (transformGlobalPlan env st)"
    and "pruned_plans st global_pose (tgp_plan (transformGlobalPlan env st)) = Inr (tp, retained)"
    and "tp \<noteq> []"
    and "\<not> goalPositionReached st global_pose (pos_x (last tp)) (pos_y (last tp))"
    and "findBestPath env tp global_pose (robot_velocity env (st\<lparr>global_plan := retained\<rparr>))
           = (path, drive_cmds)"
    and "cost path < 0"
  shows "computeVelocityCommands env st cmd_vel =
           Inr \<lparr>cr_ok = False,
                cr_cmd = cmd_vel\<lparr>lin_x := pos_x drive_cmds, lin_y := pos_y drive_cmds,
                                 ang_z := getYaw env (orientation drive_cmds)\<rparr>,
                cr_planner = st\<lparr>global_plan := retained\<rparr>,
                cr_published = [(Global_plan_topic, tp)]\<rparr>"
  using cycle_at_goal_test [OF assms(1-5), of cmd_vel] assms(5-8)
  by (simp add: drive_branch_def Let_def publishPlan_def)

theorem infeasible_cycle_keeps_drive_command_witness:
  "initialized (scn_with_plan plan_ahead)
   \<and> getRobotPose scn_env_stuck = Some (waypoint 0 0 0)
   \<and> tgp_ok (transformGlobalPlan scn_env_stuck (scn_with_plan plan_ahead))
   \<and> pruned_plans (scn_with_plan plan_ahead) (waypoint 0 0 0)
        (tgp_plan (transformGlobalPlan scn_env_stuck (scn_with_plan plan_ahead)))
       = Inr ([waypoint (1 / 2) 0 0, waypoint 3 0 0], plan_ahead)
   \<and> \<not> goalPositionReached (scn_with_plan plan_ahead) (waypoint 0 0 0) 3 0
   \<and> cost (fst (findBestPath scn_env_stuck [waypoint (1 / 2) 0 0, waypoint 3 0 0]
                  (waypoint 0 0 0)
                  (robot_velocity scn_env_stuck (scn_with_plan plan_ahead)))) < 0
   \<and> computeVelocityCommands scn_env_stuck (scn_with_plan plan_ahead) zero_twist
       = Inr \<lparr>cr_ok = False, cr_cmd = zero_twist\<lparr>lin_x := 3 / 10, ang_z := 1 / 10\<rparr>,
              cr_planner = scn_with_plan plan_ahead,
              cr_published = [(Global_plan_topic, [waypoint (1 / 2) 0 0, waypoint 3 0 0])]\<rparr>"
proof -
  let ?st = "scn_with_plan plan_ahead"
  let ?tp = "[waypoint (1 / 2) 0 0, waypoint 3 0 0]"
  have h1: "initialized ?st"
    by (simp add: scn_defs)
  have h2: "getRobotPose scn_env_stuck = Some (waypoint 0 0 0)"
    by (simp add: scn_defs)
  have tgp: "transformGlobalPlan scn_env_stuck ?st =
     \<lparr>tgp_ok = True, tgp_plan = ?tp, tgp_plan_pose = Some (waypoint 0 0 0)\<rparr>"
    by (simp add: scn_defs cycle_defs)
  have h3: "tgp_ok (transformGlobalPlan scn_env_stuck ?st)"
    by (simp add: tgp)
  have h4: "pruned_plans ?st (waypoint 0 0 0) (tgp_plan (transformGlobalPlan scn_env_stuck ?st))
       = Inr (?tp, plan_ahead)"
    by (simp add: tgp) (simp add: scn_defs cycle_defs)
  have h5: "?tp \<noteq> []"
    by simp
  have far: "\<not> goalPositionReached ?st (waypoint 0 0 0) 3 0"
    by (simp add: scn_defs cycle_defs)
  then have h6: "\<not> goalPositionReached ?st (waypoint 0 0 0) (pos_x (last ?tp)) (pos_y (last ?tp))"
    by (simp add: waypoint_def)
  have same: "?st\<lparr>global_plan := plan_ahead\<rparr> = ?st"
    by (simp add: scn_defs)
  have h7: "findBestPath scn_env_stuck ?tp (waypoint 0 0 0)
              (robot_velocity scn_env_stuck (?st\<lparr>global_plan := plan_ahead\<rparr>))
            = (\<lparr>cost = - 1, points = []\<rparr>, waypoint (3 / 10) 0 (1 / 10))"
    by (simp add: scn_env_stuck_def)
  have h8: "cost \<lparr>cost = - 1, points = []\<rparr> < 0"
    by simp
  have cmd: "zero_twist\<lparr>lin_x := pos_x (waypoint (3 / 10) 0 (1 / 10)),
                         lin_y := pos_y (waypoint (3 / 10) 0 (1 / 10)),
                         ang_z := getYaw scn_env_stuck (orientation (waypoint (3 / 10) 0 (1 / 10)))\<rparr>
             = zero_twist\<lparr>lin_x := 3 / 10, ang_z := 1 / 10\<rparr>"
    by (simp add: scn_defs)
  show ?thesis
    using infeasible_cycle_keeps_drive_command [OF h1 h2 h3 h4 h5 h6 h7 h8, of zero_twist]
      h7 far
    unfolding same cmd
    by (simp add: h1 h2 h3 h4)
qed

text \<open>
  The claim as stated fails at the goal position: there \<open>findBestPath\<close> runs too (line
  550), and when its best path has a negative cost the cycle still rotates to the goal and
  returns true, with a command that holds none of the drive commands.
\<close>

theorem infeasible_path_at_goal_counterexample:
  "goal_check scn_env_stuck (scn_with_plan plan_turn) = Some (True, False)
   \<and> findBestPath scn_env_stuck [waypoint 0 0 1] (waypoint 0 0 0)
         (robot_velocity scn_env_stuck (scn_with_plan plan_turn))
       = (\<lparr>cost = - 1, points = []\<rparr>, waypoint (3 / 10) 0 (1 / 10))
   \<and> computeVelocityCommands scn_env_stuck (scn_with_plan plan_turn) zero_twist
       = Inr \<lparr>cr_ok = True, cr_cmd = zero_twist\<lparr>ang_z := 8 / 25\<rparr>,
              cr_planner = (scn_with_plan plan_turn)\<lparr>rotating_to_goal := True\<rparr>,
              cr_published = [(Global_plan_topic, [waypoint 0 0 1])]\<rparr>"
proof -
  have gc: "goal_check scn_env_stuck (scn_with_plan plan_turn) = Some (True, False)"
    by (simp add: goal_check_def scn_defs cycle_defs)
  have path: "findBestPath scn_env_stuck [waypoint 0 0 1] (waypoint 0 0 0)
         (robot_velocity scn_env_stuck (scn_with_plan plan_turn))
       = (\<lparr>cost = - 1, points = []\<rparr>, waypoint (3 / 10) 0 (1 / 10))"
    by (simp add: scn_env_stuck_def)
  have "(8 / 25 :: real) \<le> sqrt (32 / 5)"
    by (rule real_le_rsqrt) (simp add: power2_eq_square)
  then have cap: "min (sqrt (32 / 5)) (8 / 25 :: real) = 8 / 25"
    by simp
  have sample: "v_theta_samp scn_env_stuck ((scn_with_plan plan_turn)\<lparr>rotating_to_goal := True\<rparr>)
                  1 0 = 8 / 25"
    by (simp add: v_theta_samp_def Let_def scn_defs cap)
  have run: "computeVelocityCommands scn_env_stuck (scn_with_plan plan_turn) zero_twist
       = Inr \<lparr>cr_ok = True, cr_cmd = zero_twist\<lparr>ang_z := 8 / 25\<rparr>,
              cr_planner = (scn_with_plan plan_turn)\<lparr>rotating_to_goal := True\<rparr>,
              cr_published = [(Global_plan_topic, [waypoint 0 0 1])]\<rparr>"
    using sample
    by (simp add: computeVelocityCommands_def goal_branch_def rotateToGoal_def Let_def
          scn_defs cycle_defs)
  from gc path run show ?thesis by simp
qed

section \<open>The rotating-to-goal flag\<close>

lemma cycle_planner_reachable:
  "reachable st \<Longrightarrow> reachable (cycle_planner env st cmd_vel)"
  using computeVelocityCommands_returns [of env st cmd_vel]
  by (auto simp: cycle_planner_def intro: reachable.cycle)

text \<open>
  C5 (amended). The flag is false after \<open>initialize\<close>. A cycle changes it only at its
  goal test: when it observes the robot inside both tolerances it leaves the flag false;
  when it observes the robot inside the xy tolerance and outside the yaw tolerance it
  leaves the flag true if the flag was true or the robot is stopped (so the flag is only
  ever set there); a cycle that observes the robot outside the xy tolerance, or ends before
  the goal test, leaves the flag as it was.
\<close>

theorem rotating_flag_after_cycle:
  "rotating_to_goal (cycle_planner env st cmd_vel) =
     (case goal_check env st of
        Some (True, True) \<Rightarrow> False
      | Some (True, False) \<Rightarrow> rotating_to_goal st \<or> stopped st
      | _ \<Rightarrow> rotating_to_goal st)
   \<and> (\<not> initialized st \<longrightarrow> \<not> rotating_to_goal (initialize env cfg st))"
proof -
  obtain r where r: "computeVelocityCommands env st cmd_vel = Inr r"
    using computeVelocityCommands_returns by blast
  from cycle_planner_flag [OF r] r show ?thesis
    by (auto simp: cycle_planner_def initialize_def)
qed

lemma scn_turn_cycle:
  "cycle_planner scn_env (scn_with_plan plan_turn) zero_twist =
     (scn_with_plan plan_turn)\<lparr>rotating_to_goal := True\<rparr>"
  by (simp add: cycle_planner_def computeVelocityCommands_def goal_branch_def rotateToGoal_def
        Let_def scn_defs cycle_defs)

theorem rotating_flag_after_cycle_witness:
  "\<not> initialized scn_fresh
   \<and> \<not> rotating_to_goal (initialize scn_env scn_cfg scn_fresh)
   \<and> goal_check scn_env (scn_with_plan plan_arrived) = Some (True, True)
   \<and> \<not> rotating_to_goal (cycle_planner scn_env (scn_with_plan plan_arrived) zero_twist)"
proof -
  have fresh: "\<not> initialized scn_fresh"
    by (simp add: scn_fresh_def)
  have gc: "goal_check scn_env (scn_with_plan plan_arrived) = Some (True, True)"
    by (simp add: goal_check_def scn_defs cycle_defs)
  show ?thesis
    using rotating_flag_after_cycle [of scn_env "scn_with_plan plan_arrived" zero_twist]
      rotating_flag_after_cycle [of scn_env scn_fresh zero_twist scn_cfg]
    by (simp add: fresh gc)
qed

text \<open>
  The claim as stated fails: after a cycle at the goal position has set the flag, a cycle
  that observes the robot half a metre away from the goal leaves the flag true.
\<close>

theorem rotating_flag_outside_tolerance_counterexample:
  "reachable (cycle_planner scn_env_moved
                (cycle_planner scn_env (scn_with_plan plan_turn) zero_twist) zero_twist)
   \<and> goal_check scn_env_moved (cycle_planner scn_env (scn_with_plan plan_turn) zero_twist)
       = Some (False, False)
   \<and> rotating_to_goal
        (cycle_planner scn_env_moved
           (cycle_planner scn_env (scn_with_plan plan_turn) zero_twist) zero_twist)"
proof -
  have "reachable (cycle_planner scn_env_moved
                (cycle_planner scn_env (scn_with_plan plan_turn) zero_twist) zero_twist)"
    by (intro cycle_planner_reachable scn_reachable)
  moreover have "goal_check scn_env_moved
      (cycle_planner scn_env (scn_with_plan plan_turn) zero_twist) = Some (False, False)"
    unfolding scn_turn_cycle by (simp add: goal_check_def scn_defs cycle_defs)
  moreover have "rotating_to_goal
        (cycle_planner scn_env_moved
           (cycle_planner scn_env (scn_with_plan plan_turn) zero_twist) zero_twist)"
    unfolding scn_turn_cycle
    by (simp add: cycle_planner_def computeVelocityCommands_def drive_branch_def
          Let_def scn_defs cycle_defs)
  ultimately show ?thesis by simp
qed

section \<open>The goal test\<close>

text \<open>
  C8 (amended). \<open>isGoalReached\<close> consults nothing a control cycle leaves behind (the
  flag \<open>rotating_to_goal\<close> is not read). It returns true exactly when, at the time of the
  call, the controller is initialized, the retained plan is not empty, the transform of the
  plan's final pose and the robot pose are available, the robot is within the xy tolerance
  of that final pose (in the global frame) and within the yaw tolerance of its orientation,
  and the latest odometry is stopped.
\<close>

theorem isGoalReached_iff:
  fixes env :: "'q env" and st :: "'q planner"
  defines "goal \<equiv> \<lambda>transform. to_global transform (global_frame st) (last (global_plan st))"
  shows "(isGoalReached env st \<longleftrightarrow>
            initialized st \<and> global_plan st \<noteq> []
            \<and> (\<exists>transform global_pose.
                  lookupTransform env (global_frame st)
                    (frame_id (last (global_plan st))) (stamp (last (global_plan st)))
                    = Inr transform
                  \<and> getRobotPose env = Some global_pose
                  \<and> goalPositionReached st global_pose
                       (pos_x (goal transform)) (pos_y (goal transform))
                  \<and> goalOrientationReached env st global_pose
                       (getYaw env (orientation (goal transform)))
                  \<and> stopped st))
         \<and> isGoalReached env (st\<lparr>rotating_to_goal := flag\<rparr>) = isGoalReached env st"
proof -
  have "goalPositionReached (st\<lparr>rotating_to_goal := flag\<rparr>) = goalPositionReached st"
    and "goalOrientationReached env (st\<lparr>rotating_to_goal := flag\<rparr>)
           = goalOrientationReached env st"
    and "stopped (st\<lparr>rotating_to_goal := flag\<rparr>) = stopped st"
    by (simp_all add: goalPositionReached_def goalOrientationReached_def stopped_def fun_eq_iff)
  then have flag: "isGoalReached env (st\<lparr>rotating_to_goal := flag\<rparr>) = isGoalReached env st"
    by (simp add: isGoalReached_def Let_def split: sum.split option.split)
  have iff: "isGoalReached env st \<longleftrightarrow>
            initialized st \<and> global_plan st \<noteq> []
            \<and> (\<exists>transform global_pose.
                  lookupTransform env (global_frame st)
                    (frame_id (last (global_plan st))) (stamp (last (global_plan st)))
                    = Inr transform
                  \<and> getRobotPose env = Some global_pose
                  \<and> goalPositionReached st global_pose
                       (pos_x (goal transform)) (pos_y (goal transform))
                  \<and> goalOrientationReached env st global_pose
                       (getYaw env (orientation (goal transform)))
                  \<and> stopped st)"
  proof (cases "initialized st \<and> global_plan st \<noteq> []")
    case False
    then show ?thesis by (auto simp: isGoalReached_def)
  next
    case True
    then show ?thesis
      by (auto simp: isGoalReached_def vec_back_def goal_def Let_def
               split: sum.splits option.splits)
  qed
  from iff flag show ?thesis by (rule conjI)
qed

text \<open>
  The claim as stated fails in both directions. Before any cycle has run,
  \<open>isGoalReached\<close> is already true for a stopped robot standing at the goal. And after a
  successful cycle that found the robot in position, oriented and stopped, and emitted the
  zero command, one odometry message of a moving robot makes \<open>isGoalReached\<close> false.
\<close>

theorem isGoalReached_ignores_cycles_counterexample:
  "isGoalReached scn_env (scn_with_plan plan_arrived)
   \<and> goal_check scn_env (scn_with_plan plan_arrived) = Some (True, True)
   \<and> stopped (scn_with_plan plan_arrived)
   \<and> computeVelocityCommands scn_env (scn_with_plan plan_arrived) zero_twist
       = Inr \<lparr>cr_ok = True, cr_cmd = zero_twist, cr_planner = scn_with_plan plan_arrived,
              cr_published = [(Global_plan_topic, [waypoint 0 0 0])]\<rparr>
   \<and> \<not> isGoalReached scn_env
         (odomCallback odom_moving
            (cycle_planner scn_env (scn_with_plan plan_arrived) zero_twist))"
proof -
  let ?st = "scn_with_plan plan_arrived"
  have before: "isGoalReached scn_env ?st"
    by (simp add: isGoalReached_def Let_def scn_defs cycle_defs)
  have gc: "goal_check scn_env ?st = Some (True, True)"
    by (simp add: goal_check_def scn_defs cycle_defs)
  have still: "stopped ?st"
    by (simp add: scn_defs cycle_defs)
  have reached: "computeVelocityCommands scn_env ?st zero_twist
       = Inr \<lparr>cr_ok = True, cr_cmd = zero_twist, cr_planner = ?st,
              cr_published = [(Global_plan_topic, [waypoint 0 0 0])]\<rparr>"
    by (simp add: computeVelocityCommands_def goal_branch_def Let_def scn_defs cycle_defs)
  have after: "\<not> isGoalReached scn_env (odomCallback odom_moving (cycle_planner scn_env ?st zero_twist))"
    unfolding cycle_planner_def reached
    by (simp add: isGoalReached_def Let_def odomCallback_def scn_defs cycle_defs)
  from before gc still reached after show ?thesis by simp
qed

section \<open>The empty plan\<close>

text \<open>
  With an empty retained plan every call returns false and changes nothing: not the
  command, not the controller, and nothing is published.
\<close>

lemma empty_plan_no_command:
  assumes "global_plan st = []"
  shows "computeVelocityCommands env st cmd_vel =
     Inr \<lparr>cr_ok = False, cr_cmd = cmd_vel, cr_planner = st, cr_published = []\<rparr>"
proof -
  from assms have "\<not> tgp_ok (transformGlobalPlan env st)"
    by (simp add: transformGlobalPlan_def)
  then show ?thesis by (rule cycle_no_transform)
qed

text \<open>
  C2. With an empty retained plan the call returns false and leaves the controller
  unchanged, as the claim says. But \<open>transformGlobalPlan\<close> evaluates
  \<^verbatim>\<open>global_plan_[0]\<close> (line 392) before its size check (line 397): on the empty plan
  the reference \<open>plan_pose\<close> is bound to no element (\<open>tgp_plan_pose\<close> is \<open>None\<close>),
  an out-of-range access of the plan.
\<close>

theorem empty_plan_out_of_range_reference:
  "global_plan scn_planner = []
   \<and> transformGlobalPlan scn_env scn_planner
       = \<lparr>tgp_ok = False, tgp_plan = [], tgp_plan_pose = None\<rparr>
   \<and> computeVelocityCommands scn_env scn_planner zero_twist
       = Inr \<lparr>cr_ok = False, cr_cmd = zero_twist, cr_planner = scn_planner,
              cr_published = []\<rparr>"
proof -
  have empty: "global_plan scn_planner = []"
    by (simp add: scn_planner_eval)
  have "transformGlobalPlan scn_env scn_planner
       = \<lparr>tgp_ok = False, tgp_plan = [], tgp_plan_pose = None\<rparr>"
    by (simp add: transformGlobalPlan_def vec_at_def empty)
  with empty empty_plan_no_command [OF empty] show ?thesis by simp
qed

section \<open>The odometry lock\<close>

text \<open>
  C9. Only the velocity copy of lines 502-506 accesses the odometry while the mutex is
  held. The odometry callback writes it, and \<open>stopped\<close> and the copy of line 556 read it,
  with no mutex held: the lock statement there declares an unrelated local variable. (Read
  as a temporary lock, the statement would release the mutex before the first access.)
\<close>

theorem odometry_accessed_without_lock:
  "guarded 0 velocity_copy_events
   \<and> \<not> guarded 0 (odomCallback_events scoped_lock_declaration)
   \<and> \<not> guarded 0 (stopped_events scoped_lock_declaration)
   \<and> \<not> guarded 0 (goal_branch_events scoped_lock_declaration True)
   \<and> \<not> guarded 0 (goal_branch_events scoped_lock_declaration False)
   \<and> \<not> guarded 0 (odomCallback_events scoped_lock_temporary)
   \<and> \<not> guarded 0 (stopped_events scoped_lock_temporary)
   \<and> \<not> guarded 0 (goal_branch_events scoped_lock_temporary True)
   \<and> \<not> guarded 0 (goal_branch_events scoped_lock_temporary False)"
  by (simp add: velocity_copy_events_def odomCallback_events_def stopped_events_def
        goal_branch_events_def scoped_lock_declaration_def scoped_lock_temporary_def)

section \<open>The window of the transformed plan\<close>

lemma skip_far_stops:
  "\<not> sq > thr \<Longrightarrow> skip_far robot_pose thr plan sq = (plan, sq)"
  by (cases plan) simp_all

text \<open>
  The output, exactly. The first loop consumes the first plan point that is not outside
  the window (its \<^verbatim>\<open>++i\<close> runs once more); the second loop tests the distance of the
  point appended before, so it appends one point beyond the strictly-inside run.
\<close>

lemma skip_far_found:
  assumes "sq > thr" and "dropWhile (outside_window robot_pose thr) plan = p # ps"
  shows "skip_far robot_pose thr plan sq = (ps, sq_dist_to robot_pose p)"
  using assms
proof (induction plan arbitrary: sq)
  case Nil
  then show ?case by simp
next
  case (Cons q qs)
  show ?case
  proof (cases "outside_window robot_pose thr q")
    case True
    with Cons show ?thesis by (simp add: outside_window_def)
  next
    case False
    with Cons.prems show ?thesis
      by (simp add: outside_window_def skip_far_stops)
  qed
qed

lemma skip_far_none:
  assumes "sq > thr" and "dropWhile (outside_window robot_pose thr) plan = []"
  shows "fst (skip_far robot_pose thr plan sq) = []"
  using assms
proof (induction plan arbitrary: sq)
  case Nil
  then show ?case by simp
next
  case (Cons q qs)
  then show ?case by (simp add: outside_window_def split: if_splits)
qed

lemma transform_near_exact:
  "transform_near transform gframe robot_pose thr plan sq =
     (if sq < thr
      then map (to_global transform gframe)
             (take (Suc (length (takeWhile (\<lambda>p. sq_dist_to robot_pose p < thr) plan))) plan)
      else [])"
proof (induction plan arbitrary: sq)
  case Nil
  then show ?case by simp
next
  case (Cons p ps)
  then show ?case by simp
qed

lemma transformGlobalPlan_exact:
  fixes env :: "'q env" and st :: "'q planner"
  assumes "global_plan st \<noteq> []"
    and "lookupTransform env (global_frame st) (frame_id (hd (global_plan st)))
           (stamp (hd (global_plan st))) = Inr transform"
    and "transformPose env (frame_id (hd (global_plan st))) (getBaseFrameID env)
           = Inr robot_pose"
    and thr: "thr = dist_threshold env * dist_threshold env"
    and "thr < DBL_MAX"
  shows "tgp_plan (transformGlobalPlan env st) =
     (case dropWhile (outside_window robot_pose thr) (global_plan st) of
        [] \<Rightarrow> []
      | p # ps \<Rightarrow>
          if sq_dist_to robot_pose p < thr
          then map (to_global transform (global_frame st))
                 (take (Suc (length (takeWhile (\<lambda>q. sq_dist_to robot_pose q < thr) ps))) ps)
          else [])"
proof -
  from assms(1) have first: "the (vec_at (global_plan st) 0) = hd (global_plan st)"
    by (simp add: vec_at_def hd_conv_nth)
  have out: "tgp_plan (transformGlobalPlan env st) =
      transform_near transform (global_frame st) robot_pose thr
        (fst (skip_far robot_pose thr (global_plan st) DBL_MAX))
        (snd (skip_far robot_pose thr (global_plan st) DBL_MAX))"
    using assms(1-3) first
    by (simp add: transformGlobalPlan_def Let_def split_beta thr [symmetric])
  show ?thesis
  proof (cases "dropWhile (outside_window robot_pose thr) (global_plan st)")
    case Nil
    from skip_far_none [OF _ Nil, of DBL_MAX] assms(5)
    have "fst (skip_far robot_pose thr (global_plan st) DBL_MAX) = []" by simp
    with out have "tgp_plan (transformGlobalPlan env st) = []" by simp
    then show ?thesis unfolding Nil by simp
  next
    case (Cons p ps)
    from skip_far_found [OF _ Cons, of DBL_MAX] assms(5)
    have "skip_far robot_pose thr (global_plan st) DBL_MAX = (ps, sq_dist_to robot_pose p)"
      by simp
    with out have "tgp_plan (transformGlobalPlan env st) =
        transform_near transform (global_frame st) robot_pose thr ps (sq_dist_to robot_pose p)"
      by simp
    then show ?thesis unfolding Cons by (simp add: transform_near_exact)
  qed
qed


lemma inside_window_eq:
  "inside_window robot_pose thr = (\<lambda>q. sq_dist_to robot_pose q < thr)"
  by (simp add: inside_window_def fun_eq_iff)

lemma take_Suc_takeWhile:
  "take (Suc (length (takeWhile P xs))) xs
     = takeWhile P xs @ take 1 (drop (length (takeWhile P xs)) xs)"
proof -
  have "take (length (takeWhile P xs) + 1) xs
          = take (length (takeWhile P xs)) xs @ take 1 (drop (length (takeWhile P xs)) xs)"
    by (rule take_add)
  then show ?thesis by (simp add: takeWhile_eq_take [symmetric])
qed

text \<open>
  C4 (amended). For every global plan and robot pose for which the two transforms are
  available (and a squared window below \<^verbatim>\<open>DBL_MAX\<close>), \<open>transformGlobalPlan\<close> succeeds
  and produces exactly one contiguous stretch of the retained plan, in plan order, each
  pose transformed into the global cost frame. The window is
  \<open>max(size_cells_x \<cdot> resolution / 2, size_cells_y \<cdot> resolution / 2)\<close>; the run is
  \<open>window_run\<close>, the plan points strictly within the window, one after the other, from
  the first plan point that is not outside the window on. The plan is the \<open>k\<close> points
  before the run, all outside the window, then the run, then the rest. The output is
  exactly: the run without its first point, followed by the plan point right after the
  run when the run is not empty. So every plan point before the run is dropped, every
  point of the run after its first is produced, and every plan point beyond the one that
  follows the run is dropped, whether or not it lies within the window.
\<close>

theorem transformGlobalPlan_window_run:
  fixes env :: "'q env" and st :: "'q planner"
  assumes "global_plan st \<noteq> []"
    and "lookupTransform env (global_frame st) (frame_id (hd (global_plan st)))
           (stamp (hd (global_plan st))) = Inr transform"
    and "transformPose env (frame_id (hd (global_plan st))) (getBaseFrameID env)
           = Inr robot_pose"
    and "dist_threshold env * dist_threshold env < DBL_MAX"
  defines "thr \<equiv> dist_threshold env * dist_threshold env"
  defines "k \<equiv> length (takeWhile (outside_window robot_pose thr) (global_plan st))"
  defines "run \<equiv> window_run robot_pose thr (global_plan st)"
  shows "tgp_ok (transformGlobalPlan env st)
       \<and> tgp_plan (transformGlobalPlan env st)
           = map (to_global transform (global_frame st))
               (tl run @ take (min 1 (length run)) (drop (k + length run) (global_plan st)))
       \<and> global_plan st
           = take k (global_plan st) @ run @ drop (k + length run) (global_plan st)
       \<and> list_all (outside_window robot_pose thr) (take k (global_plan st))"
proof -
  let ?plan = "global_plan st"
  let ?out = "outside_window robot_pose thr"
  let ?in = "inside_window robot_pose thr"
  from assms(1) have first: "the (vec_at ?plan 0) = hd ?plan"
    by (simp add: vec_at_def hd_conv_nth)
  have ok: "tgp_ok (transformGlobalPlan env st)"
    using assms(1-3) first by (simp add: transformGlobalPlan_def Let_def split_beta)
  have dropk: "drop k ?plan = dropWhile ?out ?plan"
    by (simp add: k_def dropWhile_eq_drop)
  have takek: "take k ?plan = takeWhile ?out ?plan"
    by (simp add: k_def takeWhile_eq_take [symmetric])
  have run: "run = takeWhile ?in (drop k ?plan)"
    by (simp add: run_def window_run_def dropk)
  have after: "drop (k + length run) ?plan = dropWhile ?in (drop k ?plan)"
    unfolding run by (simp add: dropWhile_eq_drop add.commute)
  have split: "?plan = take k ?plan @ run @ drop (k + length run) ?plan"
    using after by (simp add: run)
  have before: "list_all ?out (take k ?plan)"
    unfolding takek by (simp add: list_all_iff) (meson set_takeWhileD)
  have exact: "tgp_plan (transformGlobalPlan env st) =
     (case dropWhile ?out ?plan of
        [] \<Rightarrow> []
      | p # ps \<Rightarrow>
          if sq_dist_to robot_pose p < thr
          then map (to_global transform (global_frame st))
                 (take (Suc (length (takeWhile (\<lambda>q. sq_dist_to robot_pose q < thr) ps))) ps)
          else [])"
    unfolding thr_def by (rule transformGlobalPlan_exact [OF assms(1-3) refl assms(4)])
  have out: "tgp_plan (transformGlobalPlan env st)
           = map (to_global transform (global_frame st))
               (tl run @ take (min 1 (length run)) (drop (k + length run) ?plan))"
  proof (cases "dropWhile ?out ?plan")
    case Nil
    have "run = []" unfolding run dropk Nil by simp
    moreover from exact have "tgp_plan (transformGlobalPlan env st) = []"
      unfolding Nil by simp
    ultimately show ?thesis by simp
  next
    case (Cons p ps)
    show ?thesis
    proof (cases "?in p")
      case False
      then have "run = []" unfolding run dropk Cons by simp
      moreover from exact False have "tgp_plan (transformGlobalPlan env st) = []"
        unfolding Cons by (simp add: inside_window_def)
      ultimately show ?thesis by simp
    next
      case True
      then have r: "run = p # takeWhile ?in ps" unfolding run dropk Cons by simp
      from True have rest:
        "drop (k + length run) ?plan = drop (length (takeWhile ?in ps)) ps"
        unfolding after dropk Cons by (simp add: dropWhile_eq_drop)
      from exact True have "tgp_plan (transformGlobalPlan env st) =
          map (to_global transform (global_frame st))
            (take (Suc (length (takeWhile ?in ps))) ps)"
        unfolding Cons by (simp add: inside_window_eq)
      then show ?thesis
        unfolding take_Suc_takeWhile rest by (simp add: r)
    qed
  qed
  from ok out split before show ?thesis by simp
qed

theorem transformGlobalPlan_window_run_witness:
  "global_plan (scn_with_plan plan_detour) \<noteq> []
   \<and> lookupTransform scn_env (global_frame (scn_with_plan plan_detour))
        (frame_id (hd (global_plan (scn_with_plan plan_detour))))
        (stamp (hd (global_plan (scn_with_plan plan_detour))))
       = Inr \<lparr>tf_stamp = 0, tf_apply = (\<lambda>p. p)\<rparr>
   \<and> transformPose scn_env (frame_id (hd (global_plan (scn_with_plan plan_detour))))
        (getBaseFrameID scn_env) = Inr (waypoint 0 0 0)
   \<and> dist_threshold scn_env * dist_threshold scn_env < DBL_MAX
   \<and> window_run (waypoint 0 0 0) (dist_threshold scn_env * dist_threshold scn_env)
        (global_plan (scn_with_plan plan_detour)) = [waypoint 4 0 0, waypoint 3 0 0]
   \<and> tgp_ok (transformGlobalPlan scn_env (scn_with_plan plan_detour))
   \<and> tgp_plan (transformGlobalPlan scn_env (scn_with_plan plan_detour))
       = [waypoint 3 0 0, waypoint 6 0 0]"
proof -
  let ?st = "scn_with_plan plan_detour"
  have h1: "global_plan ?st \<noteq> []"
    by (simp add: scn_defs)
  have h2: "lookupTransform scn_env (global_frame ?st) (frame_id (hd (global_plan ?st)))
        (stamp (hd (global_plan ?st))) = Inr \<lparr>tf_stamp = 0, tf_apply = (\<lambda>p. p)\<rparr>"
    by (simp add: scn_env_def)
  have h3: "transformPose scn_env (frame_id (hd (global_plan ?st))) (getBaseFrameID scn_env)
        = Inr (waypoint 0 0 0)"
    by (simp add: scn_env_def)
  have h4: "dist_threshold scn_env * dist_threshold scn_env < DBL_MAX"
    by (simp add: dist_threshold_def DBL_MAX_def scn_env_def)
  have thr: "dist_threshold scn_env * dist_threshold scn_env = 25"
    by (simp add: dist_threshold_def scn_env_def)
  have k: "length (takeWhile (outside_window (waypoint 0 0 0) 25) (global_plan ?st)) = 1"
    by (simp add: scn_defs outside_window_def sq_dist_to_def)
  have run: "window_run (waypoint 0 0 0) 25 (global_plan ?st) = [waypoint 4 0 0, waypoint 3 0 0]"
    by (simp add: scn_defs window_run_def outside_window_def inside_window_def sq_dist_to_def)
  from transformGlobalPlan_window_run [OF h1 h2 h3 h4]
  have "tgp_ok (transformGlobalPlan scn_env ?st)
      \<and> tgp_plan (transformGlobalPlan scn_env ?st) = [waypoint 3 0 0, waypoint 6 0 0]"
    unfolding thr k run by (simp add: to_global_def scn_defs)
  with h1 h2 h3 h4 run show ?thesis
    unfolding thr by simp
qed

text \<open>
  The claim as stated fails: on a plan that enters the 5 m window, leaves it and comes
  back, the points at 4 m and at 1 m lie within the window and are dropped, and the point
  at 6 m lies outside it and is kept.
\<close>

theorem transformGlobalPlan_window_counterexample:
  "dist_threshold scn_env = 5
   \<and> transformPose scn_env ''map'' ''base_link'' = Inr (waypoint 0 0 0)
   \<and> global_plan (scn_with_plan plan_detour)
       = [waypoint 7 0 0, waypoint 4 0 0, waypoint 3 0 0, waypoint 6 0 0, waypoint 8 0 0,
          waypoint 1 0 0]
   \<and> tgp_plan (transformGlobalPlan scn_env (scn_with_plan plan_detour))
       = [waypoint 3 0 0, waypoint 6 0 0]
   \<and> sq_dist_to (waypoint 0 0 0) (waypoint 4 0 0) < 5 * 5
   \<and> sq_dist_to (waypoint 0 0 0) (waypoint 1 0 0) < 5 * 5
   \<and> sq_dist_to (waypoint 0 0 0) (waypoint 6 0 0) > 5 * 5"
  by (simp add: scn_defs cycle_defs)

end
